theory Spec2Isabelle
  imports Main "HOL-Library.Word" "HOL-Library.Signed_Division"
begin

unbundle bit_operations_syntax

section \<open>Machine types\<close>

type_synonym u8 = "8 word"
type_synonym u16 = "16 word"
type_synonym u32 = "32 word"
type_synonym i64 = "64 word"

text \<open>
  A C++ \<open>double\<close> is carried as its 64-bit IEEE-754 pattern, which is what
  \<open>writeDouble\<close>/\<open>readDouble\<close> copy with \<open>memcpy\<close>.  The test \<open>x == 0.0\<close> is true
  exactly for the two zero patterns; the arithmetic itself is supplied by the host.
\<close>

type_synonym f64 = "64 word"

definition float_is_zero :: "f64 \<Rightarrow> bool" where
  "float_is_zero x = (x AND 0x7FFFFFFFFFFFFFFF = 0)"

record float_ops =
  fadd :: "f64 \<Rightarrow> f64 \<Rightarrow> f64"
  fsub :: "f64 \<Rightarrow> f64 \<Rightarrow> f64"
  fmul :: "f64 \<Rightarrow> f64 \<Rightarrow> f64"
  fdiv :: "f64 \<Rightarrow> f64 \<Rightarrow> f64"
  from_int :: "i64 \<Rightarrow> f64"
  float_to_string :: "f64 \<Rightarrow> string"

section \<open>Bytecode image (bytecode.h)\<close>

subsection \<open>Opcodes: \<open>enum OpCode : uint8_t\<close>\<close>

definition OP_PUSH :: u8 where "OP_PUSH = 0x01"
definition OP_POP :: u8 where "OP_POP = 0x02"
definition OP_DUP :: u8 where "OP_DUP = 0x03"
definition OP_SWAP :: u8 where "OP_SWAP = 0x04"
definition OP_ADD :: u8 where "OP_ADD = 0x10"
definition OP_SUB :: u8 where "OP_SUB = 0x11"
definition OP_MUL :: u8 where "OP_MUL = 0x12"
definition OP_DIV :: u8 where "OP_DIV = 0x13"
definition OP_MOD :: u8 where "OP_MOD = 0x14"
definition OP_NEG :: u8 where "OP_NEG = 0x15"
definition OP_INC :: u8 where "OP_INC = 0x16"
definition OP_DEC :: u8 where "OP_DEC = 0x17"
definition OP_EQ :: u8 where "OP_EQ = 0x20"
definition OP_NEQ :: u8 where "OP_NEQ = 0x21"
definition OP_LT :: u8 where "OP_LT = 0x22"
definition OP_LTE :: u8 where "OP_LTE = 0x23"
definition OP_GT :: u8 where "OP_GT = 0x24"
definition OP_GTE :: u8 where "OP_GTE = 0x25"
definition OP_AND :: u8 where "OP_AND = 0x30"
definition OP_OR :: u8 where "OP_OR = 0x31"
definition OP_NOT :: u8 where "OP_NOT = 0x32"
definition OP_LOAD :: u8 where "OP_LOAD = 0x40"
definition OP_STORE :: u8 where "OP_STORE = 0x41"
definition OP_LOAD_GLOBAL :: u8 where "OP_LOAD_GLOBAL = 0x42"
definition OP_STORE_GLOBAL :: u8 where "OP_STORE_GLOBAL = 0x43"
definition OP_JMP :: u8 where "OP_JMP = 0x50"
definition OP_JMP_IF :: u8 where "OP_JMP_IF = 0x51"
definition OP_JMP_IFNOT :: u8 where "OP_JMP_IFNOT = 0x52"
definition OP_CALL :: u8 where "OP_CALL = 0x53"
definition OP_RET :: u8 where "OP_RET = 0x54"
definition OP_CALL_NATIVE :: u8 where "OP_CALL_NATIVE = 0x55"
definition OP_NEW_ARRAY :: u8 where "OP_NEW_ARRAY = 0x60"
definition OP_LOAD_INDEX :: u8 where "OP_LOAD_INDEX = 0x61"
definition OP_STORE_INDEX :: u8 where "OP_STORE_INDEX = 0x62"
definition OP_ARRAY_LEN :: u8 where "OP_ARRAY_LEN = 0x63"
definition OP_PRINT :: u8 where "OP_PRINT = 0x70"
definition OP_READ :: u8 where "OP_READ = 0x71"
definition OP_PRINTLN :: u8 where "OP_PRINTLN = 0x72"
definition OP_HALT :: u8 where "OP_HALT = 0xFF"

lemmas opcode_defs =
  OP_PUSH_def OP_POP_def OP_DUP_def OP_SWAP_def OP_ADD_def OP_SUB_def OP_MUL_def
  OP_DIV_def OP_MOD_def OP_NEG_def OP_INC_def OP_DEC_def OP_EQ_def OP_NEQ_def
  OP_LT_def OP_LTE_def OP_GT_def OP_GTE_def OP_AND_def OP_OR_def OP_NOT_def
  OP_LOAD_def OP_STORE_def OP_LOAD_GLOBAL_def OP_STORE_GLOBAL_def OP_JMP_def
  OP_JMP_IF_def OP_JMP_IFNOT_def OP_CALL_def OP_RET_def OP_CALL_NATIVE_def
  OP_NEW_ARRAY_def OP_LOAD_INDEX_def OP_STORE_INDEX_def OP_ARRAY_LEN_def
  OP_PRINT_def OP_READ_def OP_PRINTLN_def OP_HALT_def

definition UINT32_MAX :: u32 where "UINT32_MAX = 0xFFFFFFFF"

subsection \<open>Tagged values: \<open>struct Constant\<close> and \<open>class Value\<close>\<close>

text \<open>
  \<open>ValueType\<close> is an enum over \<open>uint8_t\<close> with the enumerators 0..7; a tag byte read
  from a file may be any other byte, which the codec keeps (its \<open>default\<close> branches).
\<close>

typedef other_tag = "{t :: u8. 7 < t}"
  by (rule exI [of _ 8]) simp

instantiation other_tag :: equal
begin

definition equal_other_tag :: "other_tag \<Rightarrow> other_tag \<Rightarrow> bool" where
  [code]: "equal_other_tag a b = (Rep_other_tag a = Rep_other_tag b)"

instance
  by standard (simp add: equal_other_tag_def Rep_other_tag_inject)

end

text \<open>
  \<open>Constant\<close> and the runtime \<open>Value\<close> are the same tagged union: the tag and the
  member of the union that the tag makes active.
\<close>

datatype Value =
    VNil
  | VInt (intVal: i64)
  | VFloat (floatVal: f64)
  | VBool (boolVal: bool)
  | VString (stringIdx: u32)
  | VArrayInt u32
  | VArrayFloat u32
  | VArrayString u32
  | VOther other_tag

type_synonym Constant = Value

definition TYPE_NIL :: u8 where "TYPE_NIL = 0"
definition TYPE_INT :: u8 where "TYPE_INT = 1"
definition TYPE_FLOAT :: u8 where "TYPE_FLOAT = 2"
definition TYPE_BOOL :: u8 where "TYPE_BOOL = 3"
definition TYPE_STRING :: u8 where "TYPE_STRING = 4"
definition TYPE_ARRAY_INT :: u8 where "TYPE_ARRAY_INT = 5"
definition TYPE_ARRAY_FLOAT :: u8 where "TYPE_ARRAY_FLOAT = 6"
definition TYPE_ARRAY_STRING :: u8 where "TYPE_ARRAY_STRING = 7"

lemmas type_defs =
  TYPE_NIL_def TYPE_INT_def TYPE_FLOAT_def TYPE_BOOL_def TYPE_STRING_def
  TYPE_ARRAY_INT_def TYPE_ARRAY_FLOAT_def TYPE_ARRAY_STRING_def

fun type_of :: "Value \<Rightarrow> u8" where
  "type_of VNil = TYPE_NIL"
| "type_of (VInt _) = TYPE_INT"
| "type_of (VFloat _) = TYPE_FLOAT"
| "type_of (VBool _) = TYPE_BOOL"
| "type_of (VString _) = TYPE_STRING"
| "type_of (VArrayInt _) = TYPE_ARRAY_INT"
| "type_of (VArrayFloat _) = TYPE_ARRAY_FLOAT"
| "type_of (VArrayString _) = TYPE_ARRAY_STRING"
| "type_of (VOther t) = Rep_other_tag t"

record Instruction =
  opcode :: u8
  operand :: u32

definition Instr :: "u8 \<Rightarrow> u32 \<Rightarrow> Instruction" where
  "Instr op opnd = \<lparr>opcode = op, operand = opnd\<rparr>"

record FunctionInfo =
  name :: string
  address :: u32
  arity :: u8
  locals :: u8

record BytecodeFile =
  magic :: u32
  version :: u16
  flags :: u16
  code :: "Instruction list"
  constants :: "Constant list"
  strings :: "string list"
  intArrays :: "i64 list list"
  floatArrays :: "f64 list list"
  stringArrays :: "string list list"
  functions_t :: "FunctionInfo list"
  nativeImports :: "string list"

definition TAIL_MAGIC :: u32 where "TAIL_MAGIC = 0x5441494C"

text \<open>The default member initialisers of \<open>struct BytecodeFile\<close>.\<close>

definition empty_image :: BytecodeFile where
  "empty_image = \<lparr>magic = TAIL_MAGIC, version = 1, flags = 0, code = [], constants = [],
     strings = [], intArrays = [], floatArrays = [], stringArrays = [],
     functions_t = [], nativeImports = []\<rparr>"

text \<open>\<open>std::vector::resize\<close>: cut, or fill with value-initialised elements.\<close>

definition resize :: "nat \<Rightarrow> 'a \<Rightarrow> 'a list \<Rightarrow> 'a list" where
  "resize n d xs = take n xs @ replicate (n - length xs) d"

section \<open>Virtual machine (vm.h, vm.cpp)\<close>

datatype vm_error =
    RuntimeError u32 string
  | UndefinedBehaviour string

record CallFrame =
  returnAddr :: u32
  localStart :: u32
  argCount :: u32
  func :: FunctionInfo

text \<open>
  The operand stack, the slot vectors and the call stack are \<open>std::vector\<close>s; the top
  of a stack is the last element.  \<open>program\<close> is the image being run, whose string
  table grows at run time.
\<close>

record VM =
  program :: BytecodeFile
  running :: bool
  pc :: u32
  stack :: "Value list"
  globals :: "Value list"
  locals_v :: "Value list"
  callStack :: "CallFrame list"

definition runtimeError :: "VM \<Rightarrow> string \<Rightarrow> vm_error + 'a" where
  "runtimeError vm message = Inl (RuntimeError (pc vm) message)"

definition pop :: "VM \<Rightarrow> vm_error + (Value \<times> VM)" where
  "pop vm = (if stack vm = [] then runtimeError vm ''Stack underflow''
             else Inr (last (stack vm), vm\<lparr>stack := butlast (stack vm)\<rparr>))"

definition push :: "Value \<Rightarrow> VM \<Rightarrow> VM" where
  "push val vm = vm\<lparr>stack := stack vm @ [val]\<rparr>"

text \<open>
  \<open>peek(offset)\<close> with its default \<open>offset = 0\<close>.  The test is
  \<open>offset >= (int)stack.size()\<close>: the size is narrowed to a 32-bit \<open>int\<close>, so
  a stack of \<open>2^31\<close> values reads as a negative size and is refused.
\<close>

definition peek :: "VM \<Rightarrow> vm_error + Value" where
  "peek vm =
     (if (0 :: int) \<ge> sint (word_of_nat (length (stack vm)) :: u32)
      then runtimeError vm ''Stack peek out of bounds''
      else Inr (stack vm ! (length (stack vm) - 1 - 0)))"

subsection \<open>Variables\<close>

definition opLoad :: "u32 \<Rightarrow> VM \<Rightarrow> vm_error + VM" where
  "opLoad index vm =
     (if unat index \<ge> length (locals_v vm)
      then runtimeError vm ''Local variable index out of bounds''
      else Inr (push (locals_v vm ! unat index) vm))"

definition opStore :: "u32 \<Rightarrow> VM \<Rightarrow> vm_error + VM" where
  "opStore index vm =
     (if unat index \<ge> length (locals_v vm)
      then runtimeError vm ''Local variable index out of bounds''
      else (case peek vm of
              Inl e \<Rightarrow> Inl e
            | Inr v \<Rightarrow> Inr (vm\<lparr>locals_v := (locals_v vm)[unat index := v]\<rparr>)))"

text \<open>
  \<open>globals.resize(index + 1)\<close> computes \<open>index + 1\<close> in \<open>uint32_t\<close>: for
  \<open>index = 0xFFFFFFFF\<close> it wraps to 0, the vector is emptied, and the access
  \<open>globals[index]\<close> that follows is out of range.  The model has no bound on
  memory: a \<open>resize\<close> that the allocator would refuse is not represented, so
  results below that assert completion are stated for an index inside the vector,
  where nothing is allocated.
\<close>

definition opLoadGlobal :: "u32 \<Rightarrow> VM \<Rightarrow> vm_error + VM" where
  "opLoadGlobal index vm =
     (let g = (if unat index \<ge> length (globals vm)
               then resize (unat (index + 1)) VNil (globals vm) else globals vm)
      in if unat index \<ge> length g then Inl (UndefinedBehaviour ''globals[index]'')
         else Inr (push (g ! unat index) (vm\<lparr>globals := g\<rparr>)))"

definition opStoreGlobal :: "u32 \<Rightarrow> VM \<Rightarrow> vm_error + VM" where
  "opStoreGlobal index vm =
     (let g = (if unat index \<ge> length (globals vm)
               then resize (unat (index + 1)) VNil (globals vm) else globals vm)
      in if unat index \<ge> length g then Inl (UndefinedBehaviour ''globals[index]'')
         else (case peek vm of
                 Inl e \<Rightarrow> Inl e
               | Inr v \<Rightarrow> Inr (vm\<lparr>globals := g[unat index := v]\<rparr>)))"

subsection \<open>\<open>Value::toString\<close>\<close>

function nat_to_string :: "nat \<Rightarrow> string" where
  "nat_to_string n =
     (if n < 10 then [char_of (48 + n)]
      else nat_to_string (n div 10) @ [char_of (48 + n mod 10)])"
  by pat_completeness auto
termination
  by (relation "measure id") auto

text \<open>\<open>std::to_string(int64_t)\<close>.\<close>

definition to_string_i64 :: "i64 \<Rightarrow> string" where
  "to_string_i64 v =
     (if sint v < 0 then CHR ''-'' # nat_to_string (nat (- sint v))
      else nat_to_string (nat (sint v)))"

fun toString :: "float_ops \<Rightarrow> BytecodeFile \<Rightarrow> Value \<Rightarrow> string" where
  "toString fp prog VNil = ''nil''"
| "toString fp prog (VInt i) = to_string_i64 i"
| "toString fp prog (VFloat d) = float_to_string fp d"
| "toString fp prog (VBool b) = (if b then ''true'' else ''false'')"
| "toString fp prog (VString idx) =
     (if unat idx < length (strings prog) then strings prog ! unat idx else ''[string]'')"
| "toString fp prog (VArrayInt _) = ''[int array]''"
| "toString fp prog (VArrayFloat _) = ''[float array]''"
| "toString fp prog (VArrayString _) = ''[string array]''"
| "toString fp prog (VOther _) = ''[unknown]''"

subsection \<open>Arithmetic\<close>

text \<open>
  Signed \<open>int64_t\<close> arithmetic is modelled in two's complement.  \<open>/\<close> and \<open>%\<close>
  truncate towards zero; \<open>INT64_MIN / -1\<close> overflows, which C++ leaves undefined.
\<close>

definition INT64_MIN :: i64 where "INT64_MIN = 0x8000000000000000"

definition int_div :: "i64 \<Rightarrow> i64 \<Rightarrow> vm_error + i64" where
  "int_div a b =
     (if a = INT64_MIN \<and> b = - 1 then Inl (UndefinedBehaviour ''INT64_MIN / -1'')
      else Inr (word_of_int (sint a sdiv sint b)))"

definition int_mod :: "i64 \<Rightarrow> i64 \<Rightarrow> vm_error + i64" where
  "int_mod a b =
     (if a = INT64_MIN \<and> b = - 1 then Inl (UndefinedBehaviour ''INT64_MIN % -1'')
      else Inr (word_of_int (sint a smod sint b)))"

text \<open>Sequencing: an error raised by a step leaves the opcode.\<close>

definition and_then_vm :: "vm_error + ('a \<times> VM) \<Rightarrow> ('a \<Rightarrow> VM \<Rightarrow> vm_error + 'b) \<Rightarrow> vm_error + 'b"
  where
  "and_then_vm m k = (case m of Inl e \<Rightarrow> Inl e | Inr (x, vm) \<Rightarrow> k x vm)"

text \<open>Every binary opcode starts with \<open>Value b = pop(); Value a = pop();\<close>.\<close>

definition pop2 :: "VM \<Rightarrow> vm_error + ((Value \<times> Value) \<times> VM)" where
  "pop2 vm =
     and_then_vm (pop vm) (\<lambda>b vm1.
     and_then_vm (pop vm1) (\<lambda>a vm2. Inr ((a, b), vm2)))"

definition add_string :: "string \<Rightarrow> VM \<Rightarrow> VM" where
  "add_string result vm =
     (let idx = (word_of_nat (length (strings (program vm))) :: u32)
      in push (VString idx)
           (vm\<lparr>program := (program vm)\<lparr>strings := strings (program vm) @ [result]\<rparr>\<rparr>))"

definition add_values :: "float_ops \<Rightarrow> Value \<Rightarrow> Value \<Rightarrow> VM \<Rightarrow> VM" where
  "add_values fp a b vm =
     (if type_of a = TYPE_INT \<and> type_of b = TYPE_INT
      then push (VInt (intVal a + intVal b)) vm
      else if type_of a = TYPE_FLOAT \<and> type_of b = TYPE_FLOAT
      then push (VFloat (fadd fp (floatVal a) (floatVal b))) vm
      else if type_of a = TYPE_INT \<and> type_of b = TYPE_FLOAT
      then push (VFloat (fadd fp (from_int fp (intVal a)) (floatVal b))) vm
      else if type_of a = TYPE_FLOAT \<and> type_of b = TYPE_INT
      then push (VFloat (fadd fp (floatVal a) (from_int fp (intVal b)))) vm
      else if type_of a = TYPE_STRING \<or> type_of b = TYPE_STRING
      then add_string (toString fp (program vm) a @ toString fp (program vm) b) vm
      else push VNil vm)"

definition opAdd :: "float_ops \<Rightarrow> VM \<Rightarrow> vm_error + VM" where
  "opAdd fp vm = and_then_vm (pop2 vm) (\<lambda>(a, b). \<lambda>vm'. Inr (add_values fp a b vm'))"

definition sub_values :: "float_ops \<Rightarrow> Value \<Rightarrow> Value \<Rightarrow> VM \<Rightarrow> vm_error + VM" where
  "sub_values fp a b vm =
     (if type_of a = TYPE_INT \<and> type_of b = TYPE_INT
      then Inr (push (VInt (intVal a - intVal b)) vm)
      else if type_of a = TYPE_FLOAT \<and> type_of b = TYPE_FLOAT
      then Inr (push (VFloat (fsub fp (floatVal a) (floatVal b))) vm)
      else runtimeError vm ''Invalid types for subtraction'')"

definition opSub :: "float_ops \<Rightarrow> VM \<Rightarrow> vm_error + VM" where
  "opSub fp vm = and_then_vm (pop2 vm) (\<lambda>(a, b). sub_values fp a b)"

definition mul_values :: "float_ops \<Rightarrow> Value \<Rightarrow> Value \<Rightarrow> VM \<Rightarrow> vm_error + VM" where
  "mul_values fp a b vm =
     (if type_of a = TYPE_INT \<and> type_of b = TYPE_INT
      then Inr (push (VInt (intVal a * intVal b)) vm)
      else if type_of a = TYPE_FLOAT \<and> type_of b = TYPE_FLOAT
      then Inr (push (VFloat (fmul fp (floatVal a) (floatVal b))) vm)
      else runtimeError vm ''Invalid types for multiplication'')"

definition opMul :: "float_ops \<Rightarrow> VM \<Rightarrow> vm_error + VM" where
  "opMul fp vm = and_then_vm (pop2 vm) (\<lambda>(a, b). mul_values fp a b)"

definition zero_divisor :: "Value \<Rightarrow> bool" where
  "zero_divisor b =
     ((type_of b = TYPE_INT \<and> intVal b = 0)
      \<or> (type_of b = TYPE_FLOAT \<and> float_is_zero (floatVal b)))"

definition div_values :: "float_ops \<Rightarrow> Value \<Rightarrow> Value \<Rightarrow> VM \<Rightarrow> vm_error + VM" where
  "div_values fp a b vm =
     (if type_of a = TYPE_INT \<and> type_of b = TYPE_INT
      then (case int_div (intVal a) (intVal b) of
              Inl e \<Rightarrow> Inl e
            | Inr q \<Rightarrow> Inr (push (VInt q) vm))
      else if type_of a = TYPE_FLOAT \<and> type_of b = TYPE_FLOAT
      then Inr (push (VFloat (fdiv fp (floatVal a) (floatVal b))) vm)
      else runtimeError vm ''Invalid types for division'')"

definition opDiv :: "float_ops \<Rightarrow> VM \<Rightarrow> vm_error + VM" where
  "opDiv fp vm =
     and_then_vm (pop2 vm) (\<lambda>(a, b). \<lambda>vm'.
       if zero_divisor b then runtimeError vm' ''Division by zero''
       else div_values fp a b vm')"

definition mod_values :: "Value \<Rightarrow> Value \<Rightarrow> VM \<Rightarrow> vm_error + VM" where
  "mod_values a b vm =
     (if type_of a = TYPE_INT \<and> type_of b = TYPE_INT
      then (if intVal b = 0 then runtimeError vm ''Modulo by zero''
            else (case int_mod (intVal a) (intVal b) of
                    Inl e \<Rightarrow> Inl e
                  | Inr r \<Rightarrow> Inr (push (VInt r) vm)))
      else runtimeError vm ''Invalid types for modulo'')"

definition opMod :: "VM \<Rightarrow> vm_error + VM" where
  "opMod vm = and_then_vm (pop2 vm) (\<lambda>(a, b). mod_values a b)"

text \<open>
  \<open>opNeg\<close> pops; \<open>opInc\<close>/\<open>opDec\<close> change the top of the stack in place through the
  reference \<open>peek()\<close> returns.  Negating a double flips its sign bit; 1.0 is
  \<open>0x3FF0000000000000\<close>.
\<close>

definition opNeg :: "VM \<Rightarrow> vm_error + VM" where
  "opNeg vm =
     and_then_vm (pop vm) (\<lambda>a vm'.
       if type_of a = TYPE_INT then Inr (push (VInt (- intVal a)) vm')
       else if type_of a = TYPE_FLOAT
       then Inr (push (VFloat (floatVal a XOR 0x8000000000000000)) vm')
       else runtimeError vm' ''Invalid type for negation'')"

definition set_top :: "Value \<Rightarrow> VM \<Rightarrow> VM" where
  "set_top v vm = vm\<lparr>stack := butlast (stack vm) @ [v]\<rparr>"

definition opInc :: "float_ops \<Rightarrow> VM \<Rightarrow> vm_error + VM" where
  "opInc fp vm =
     (case peek vm of
        Inl e \<Rightarrow> Inl e
      | Inr a \<Rightarrow>
          if type_of a = TYPE_INT then Inr (set_top (VInt (intVal a + 1)) vm)
          else if type_of a = TYPE_FLOAT
          then Inr (set_top (VFloat (fadd fp (floatVal a) 0x3FF0000000000000)) vm)
          else runtimeError vm ''Invalid type for increment'')"

definition opDec :: "float_ops \<Rightarrow> VM \<Rightarrow> vm_error + VM" where
  "opDec fp vm =
     (case peek vm of
        Inl e \<Rightarrow> Inl e
      | Inr a \<Rightarrow>
          if type_of a = TYPE_INT then Inr (set_top (VInt (intVal a - 1)) vm)
          else if type_of a = TYPE_FLOAT
          then Inr (set_top (VFloat (fsub fp (floatVal a) 0x3FF0000000000000)) vm)
          else runtimeError vm ''Invalid type for decrement'')"

subsection \<open>Calls\<close>

fun find_function :: "FunctionInfo list \<Rightarrow> u32 \<Rightarrow> FunctionInfo option" where
  "find_function [] funcIndex = None"
| "find_function (f # fs) funcIndex =
     (if address f = funcIndex then Some f else find_function fs funcIndex)"

text \<open>
  The first loop of \<open>callFunction\<close>, \<open>for (int i = func->arity - 1; i >= 0; i--)\<close>:
  \<open>n\<close> is the number of iterations left, so the current \<open>i\<close> is \<open>n - 1\<close>.  A write
  beyond the resized \<open>locals\<close> is out of range.
\<close>

fun store_args :: "nat \<Rightarrow> u32 \<Rightarrow> VM \<Rightarrow> vm_error + VM" where
  "store_args 0 start vm = Inr vm"
| "store_args (Suc i) start vm =
     (let slot = unat (start + word_of_nat i)
      in if slot \<ge> length (locals_v vm) then Inl (UndefinedBehaviour ''locals[localStart + i]'')
         else if stack vm \<noteq> []
         then store_args i start
                (vm\<lparr>locals_v := (locals_v vm)[slot := last (stack vm)],
                    stack := butlast (stack vm)\<rparr>)
         else store_args i start (vm\<lparr>locals_v := (locals_v vm)[slot := VNil]\<rparr>))"

text \<open>The second loop: \<open>for (int i = 0; i < func->arity; i++) if (!stack.empty()) stack.pop_back();\<close>\<close>

fun drop_args :: "nat \<Rightarrow> VM \<Rightarrow> VM" where
  "drop_args 0 vm = vm"
| "drop_args (Suc n) vm =
     drop_args n (if stack vm \<noteq> [] then vm\<lparr>stack := butlast (stack vm)\<rparr> else vm)"

definition callFunction :: "u32 \<Rightarrow> VM \<Rightarrow> vm_error + VM" where
  "callFunction funcIndex vm =
     (case find_function (functions_t (program vm)) funcIndex of
        None \<Rightarrow> runtimeError vm
                  (''Function not found at address: '' @ nat_to_string (unat funcIndex))
      | Some f \<Rightarrow>
          if length (stack vm) < unat (arity f)
          then runtimeError vm (''Not enough arguments for function '' @ name f)
          else
            let frame = \<lparr>returnAddr = pc vm + 1,
                         localStart = word_of_nat (length (locals_v vm)),
                         argCount = ucast (arity f),
                         func = f\<rparr>;
                vm1 = vm\<lparr>callStack := callStack vm @ [frame],
                         locals_v := resize (unat (localStart frame + ucast (locals f))) VNil
                                       (locals_v vm)\<rparr>
            in (case store_args (unat (arity f)) (localStart frame) vm1 of
                  Inl e \<Rightarrow> Inl e
                | Inr vm2 \<Rightarrow> Inr ((drop_args (unat (arity f)) vm2)\<lparr>pc := address f\<rparr>)))"

definition returnFromFunction :: "VM \<Rightarrow> vm_error + VM" where
  "returnFromFunction vm =
     (if callStack vm = [] then Inr (vm\<lparr>running := False\<rparr>)
      else
        let frame = last (callStack vm);
            vm1 = vm\<lparr>callStack := butlast (callStack vm)\<rparr>
        in if returnAddr frame = UINT32_MAX then Inr (vm1\<lparr>running := False\<rparr>)
           else
             let returnValue = (if stack vm1 \<noteq> [] then last (stack vm1) else VNil);
                 vm2 = (if stack vm1 \<noteq> [] then vm1\<lparr>stack := butlast (stack vm1)\<rparr> else vm1)
             in Inr (push returnValue
                      (vm2\<lparr>locals_v := resize (unat (localStart frame)) VNil (locals_v vm2),
                           pc := returnAddr frame\<rparr>)))"

subsection \<open>A machine state to evaluate on\<close>

definition vm_init :: "BytecodeFile \<Rightarrow> VM" where
  "vm_init prog = \<lparr>program = prog, running = True, pc = 0, stack = [], globals = [],
     locals_v = [], callStack = []\<rparr>"

text \<open>
  An image with \<open>Main\<close> (one local) and a one-parameter function \<open>f\<close> at address 10,
  and the state in which \<open>Main\<close>, whose local holds 7, has pushed 10 and then the
  argument 42 and is about to execute \<open>CALL 10\<close> at address 3.
\<close>

definition call_image :: BytecodeFile where
  "call_image = empty_image\<lparr>functions_t :=
     [\<lparr>name = ''f'', address = 10, arity = 1, locals = 1\<rparr>,
      \<lparr>name = ''Main'', address = 0, arity = 0, locals = 1\<rparr>]\<rparr>"

definition call_state :: VM where
  "call_state = (vm_init call_image)\<lparr>pc := 3, stack := [VInt 10, VInt 42],
     locals_v := [VInt 7],
     callStack := [\<lparr>returnAddr = UINT32_MAX, localStart = 0, argCount = 0,
                    func = \<lparr>name = ''Main'', address = 0, arity = 0, locals = 1\<rparr>\<rparr>]\<rparr>"

text \<open>A float unit for evaluating states in which no double takes part.\<close>

definition no_floats :: float_ops where
  "no_floats = \<lparr>fadd = (\<lambda>x y. 0), fsub = (\<lambda>x y. 0), fmul = (\<lambda>x y. 0),
     fdiv = (\<lambda>x y. 0), from_int = (\<lambda>x. 0), float_to_string = (\<lambda>x. [])\<rparr>"

subsection \<open>Operand classes of the arithmetic opcodes\<close>

definition is_int :: "Value \<Rightarrow> bool" where
  "is_int v = (type_of v = TYPE_INT)"

definition is_float :: "Value \<Rightarrow> bool" where
  "is_float v = (type_of v = TYPE_FLOAT)"

definition is_string :: "Value \<Rightarrow> bool" where
  "is_string v = (type_of v = TYPE_STRING)"

definition same_numeric :: "Value \<Rightarrow> Value \<Rightarrow> bool" where
  "same_numeric a b = ((is_int a \<and> is_int b) \<or> (is_float a \<and> is_float b))"

definition numeric :: "Value \<Rightarrow> bool" where
  "numeric v = (is_int v \<or> is_float v)"

section \<open>Image codec (bytecode.cpp)\<close>

subsection \<open>Little-endian writers\<close>

definition writeUint32 :: "u32 \<Rightarrow> u8 list" where
  "writeUint32 v =
     [ucast (v AND 0xFF), ucast (drop_bit 8 v AND 0xFF),
      ucast (drop_bit 16 v AND 0xFF), ucast (drop_bit 24 v AND 0xFF)]"

definition writeUint16 :: "u16 \<Rightarrow> u8 list" where
  "writeUint16 v = [ucast (v AND 0xFF), ucast (drop_bit 8 v AND 0xFF)]"

text \<open>\<open>value >> (i * 8)\<close> on an \<open>int64_t\<close> is an arithmetic shift.\<close>

definition writeInt64 :: "i64 \<Rightarrow> u8 list" where
  "writeInt64 v = map (\<lambda>i. ucast (signed_drop_bit (i * 8) v AND 0xFF)) [0..<8]"

text \<open>
  \<open>writeDouble\<close> copies the eight bytes of the object representation in memory
  order; the host is taken to be little-endian.
\<close>

definition writeDouble :: "f64 \<Rightarrow> u8 list" where
  "writeDouble v = map (\<lambda>i. ucast (drop_bit (i * 8) v)) [0..<8]"

definition byte_of_char :: "char \<Rightarrow> u8" where
  "byte_of_char c = word_of_nat (of_char c)"

definition char_of_byte :: "u8 \<Rightarrow> char" where
  "char_of_byte b = char_of (unat b)"

definition write_string :: "string \<Rightarrow> u8 list" where
  "write_string str = writeUint32 (word_of_nat (length str)) @ map byte_of_char str"

subsection \<open>\<open>BytecodeFile::serialize\<close>\<close>

definition write_instr :: "Instruction \<Rightarrow> u8 list" where
  "write_instr instr = opcode instr # writeUint32 (operand instr)"

fun write_const :: "Constant \<Rightarrow> u8 list" where
  "write_const (VInt x) = TYPE_INT # writeInt64 x"
| "write_const (VFloat d) = TYPE_FLOAT # writeDouble d"
| "write_const (VBool b) = [TYPE_BOOL, if b then 1 else 0]"
| "write_const (VString idx) = TYPE_STRING # writeUint32 idx"
| "write_const (VArrayInt idx) = TYPE_ARRAY_INT # writeUint32 idx"
| "write_const (VArrayFloat idx) = TYPE_ARRAY_FLOAT # writeUint32 idx"
| "write_const (VArrayString idx) = TYPE_ARRAY_STRING # writeUint32 idx"
| "write_const VNil = TYPE_NIL # replicate 8 0"
| "write_const (VOther t) = Rep_other_tag t # replicate 8 0"

definition write_int_array :: "i64 list \<Rightarrow> u8 list" where
  "write_int_array arr = writeUint32 (word_of_nat (length arr)) @ concat (map writeInt64 arr)"

definition write_float_array :: "f64 list \<Rightarrow> u8 list" where
  "write_float_array arr = writeUint32 (word_of_nat (length arr)) @ concat (map writeDouble arr)"

definition write_string_array :: "string list \<Rightarrow> u8 list" where
  "write_string_array arr = writeUint32 (word_of_nat (length arr)) @ concat (map write_string arr)"

definition write_function :: "FunctionInfo \<Rightarrow> u8 list" where
  "write_function f = write_string (name f) @ writeUint32 (address f) @ [arity f, locals f]"

text \<open>A section: the element count as \<open>uint32_t\<close>, then the elements in order.\<close>

definition write_section :: "('a \<Rightarrow> u8 list) \<Rightarrow> 'a list \<Rightarrow> u8 list" where
  "write_section wr xs = writeUint32 (word_of_nat (length xs)) @ concat (map wr xs)"

definition serialize :: "BytecodeFile \<Rightarrow> u8 list" where
  "serialize f =
     writeUint32 (magic f) @ writeUint16 (version f) @ writeUint16 (flags f)
     @ write_section write_instr (code f)
     @ write_section write_const (constants f)
     @ write_section write_string (strings f)
     @ write_section write_int_array (intArrays f)
     @ write_section write_float_array (floatArrays f)
     @ write_section write_string_array (stringArrays f)
     @ write_section write_function (functions_t f)
     @ write_section write_string (nativeImports f)"

subsection \<open>Little-endian readers\<close>

text \<open>
  The read position \<open>ptr\<close> is the list of bytes from \<open>ptr\<close> to \<open>end\<close>, so
  \<open>ptr + n > end\<close> is \<open>length bs < n\<close>.  \<open>Rejected\<close> is \<open>return false\<close>; the
  \<open>read...\<close> helpers themselves do not check, and a read beyond \<open>end\<close> is undefined.
\<close>

datatype codec_error = Rejected | ReadPastEnd

type_synonym 'a reader = "u8 list \<Rightarrow> codec_error + ('a \<times> u8 list)"

definition readUint32 :: "u32 reader" where
  "readUint32 bs =
     (if length bs < 4 then Inl ReadPastEnd
      else Inr (ucast (bs ! 0) OR push_bit 8 (ucast (bs ! 1))
                OR push_bit 16 (ucast (bs ! 2)) OR push_bit 24 (ucast (bs ! 3)),
                drop 4 bs))"

definition readUint16 :: "u16 reader" where
  "readUint16 bs =
     (if length bs < 2 then Inl ReadPastEnd
      else Inr (ucast (bs ! 0) OR push_bit 8 (ucast (bs ! 1)), drop 2 bs))"

definition readInt64 :: "i64 reader" where
  "readInt64 bs =
     (if length bs < 8 then Inl ReadPastEnd
      else Inr (fold (\<lambda>i result. result OR push_bit (i * 8) (ucast (bs ! i))) [0..<8] 0,
                drop 8 bs))"

text \<open>\<open>readDouble\<close> copies eight bytes back into the object, lowest byte first.\<close>

definition readDouble :: "f64 reader" where
  "readDouble bs =
     (if length bs < 8 then Inl ReadPastEnd
      else Inr (fold (\<lambda>i result. result OR push_bit (i * 8) (ucast (bs ! i))) [0..<8] 0,
                drop 8 bs))"

text \<open>\<open>if (ptr + n > end) return false;\<close> in front of a read.\<close>

definition checked :: "nat \<Rightarrow> 'a reader \<Rightarrow> 'a reader" where
  "checked n rd bs = (if length bs < n then Inl Rejected else rd bs)"

definition read_byte :: "u8 reader" where
  "read_byte bs = (case bs of [] \<Rightarrow> Inl ReadPastEnd | b # bs' \<Rightarrow> Inr (b, bs'))"

text \<open>Sequencing: a failed step ends the whole read.\<close>

definition and_then :: "codec_error + ('a \<times> u8 list) \<Rightarrow> ('a \<Rightarrow> u8 list \<Rightarrow> codec_error + 'b)
    \<Rightarrow> codec_error + 'b" where
  "and_then m k = (case m of Inl e \<Rightarrow> Inl e | Inr (x, bs) \<Rightarrow> k x bs)"

text \<open>A loop \<open>for (i = 0; i < count; i++)\<close> that reads one element per iteration.\<close>

fun read_many :: "nat \<Rightarrow> 'a reader \<Rightarrow> 'a list reader" where
  "read_many 0 rd bs = Inr ([], bs)"
| "read_many (Suc n) rd bs =
     (case rd bs of
        Inl e \<Rightarrow> Inl e
      | Inr (x, bs') \<Rightarrow>
          (case read_many n rd bs' of
             Inl e \<Rightarrow> Inl e
           | Inr (xs, bs'') \<Rightarrow> Inr (x # xs, bs'')))"

definition read_string :: "string reader" where
  "read_string bs =
     (case checked 4 readUint32 bs of
        Inl e \<Rightarrow> Inl e
      | Inr (len, bs') \<Rightarrow>
          if length bs' < unat len then Inl Rejected
          else Inr (map char_of_byte (take (unat len) bs'), drop (unat len) bs'))"

subsection \<open>\<open>BytecodeFile::deserialize\<close>\<close>

definition read_instr :: "Instruction reader" where
  "read_instr bs =
     (case checked 1 read_byte bs of
        Inl e \<Rightarrow> Inl e
      | Inr (op, bs') \<Rightarrow>
          (case readUint32 bs' of
             Inl e \<Rightarrow> Inl e
           | Inr (opnd, bs'') \<Rightarrow> Inr (\<lparr>opcode = op, operand = opnd\<rparr>, bs'')))"

text \<open>
  The code section: the size check multiplies in \<open>uint32_t\<close>
  (\<open>ptr + codeSize * 5 > end\<close>).
\<close>

definition read_code :: "Instruction list reader" where
  "read_code bs =
     (case checked 4 readUint32 bs of
        Inl e \<Rightarrow> Inl e
      | Inr (codeSize, bs') \<Rightarrow>
          if length bs' < unat (codeSize * 5) then Inl Rejected
          else read_many (unat codeSize) read_instr bs')"

definition map_reader :: "('a \<Rightarrow> 'b) \<Rightarrow> 'a reader \<Rightarrow> 'b reader" where
  "map_reader g rd bs = (case rd bs of Inl e \<Rightarrow> Inl e | Inr (x, bs') \<Rightarrow> Inr (g x, bs'))"

definition skip8 :: "'a \<Rightarrow> 'a reader" where
  "skip8 x bs = (if length bs < 8 then Inl Rejected else Inr (x, drop 8 bs))"

definition read_const :: "Constant reader" where
  "read_const bs =
     (case checked 1 read_byte bs of
        Inl e \<Rightarrow> Inl e
      | Inr (t, bs') \<Rightarrow>
          if t = TYPE_INT then map_reader VInt (checked 8 readInt64) bs'
          else if t = TYPE_FLOAT then map_reader VFloat (checked 8 readDouble) bs'
          else if t = TYPE_BOOL then map_reader (\<lambda>b. VBool (b \<noteq> 0)) (checked 1 read_byte) bs'
          else if t = TYPE_STRING then map_reader VString (checked 4 readUint32) bs'
          else if t = TYPE_ARRAY_INT then map_reader VArrayInt (checked 4 readUint32) bs'
          else if t = TYPE_ARRAY_FLOAT then map_reader VArrayFloat (checked 4 readUint32) bs'
          else if t = TYPE_ARRAY_STRING then map_reader VArrayString (checked 4 readUint32) bs'
          else if t = TYPE_NIL then skip8 VNil bs'
          else skip8 (VOther (Abs_other_tag t)) bs')"

text \<open>A section whose count is read unconditionally checked and then looped over.\<close>

definition read_section :: "'a reader \<Rightarrow> 'a list reader" where
  "read_section rd bs =
     (case checked 4 readUint32 bs of
        Inl e \<Rightarrow> Inl e
      | Inr (count, bs') \<Rightarrow> read_many (unat count) rd bs')"

definition read_int_array :: "i64 list reader" where
  "read_int_array = read_section (checked 8 readInt64)"

definition read_float_array :: "f64 list reader" where
  "read_float_array = read_section (checked 8 readDouble)"

definition read_string_array :: "string list reader" where
  "read_string_array = read_section read_string"

definition read_function :: "FunctionInfo reader" where
  "read_function bs =
     and_then (read_string bs) (\<lambda>n bs1.
     and_then (checked 4 readUint32 bs1) (\<lambda>addr bs2.
     and_then (checked 1 read_byte bs2) (\<lambda>a bs3.
     and_then (checked 1 read_byte bs3) (\<lambda>l bs4.
       Inr (\<lparr>name = n, address = addr, arity = a, locals = l\<rparr>, bs4)))))"

text \<open>
  Bytes left over after the last section only produce a warning.
\<close>

definition deserialize :: "u8 list \<Rightarrow> codec_error + BytecodeFile" where
  "deserialize data =
     (if length data < 8 then Inl Rejected
      else
        and_then (checked 8 readUint32 data) (\<lambda>m b0.
        if m \<noteq> 0x5441494C then Inl Rejected
        else
        and_then (readUint16 b0) (\<lambda>v b1.
        and_then (readUint16 b1) (\<lambda>fl b2.
        and_then (read_code b2) (\<lambda>c b3.
        and_then (read_section read_const b3) (\<lambda>cs b4.
        and_then (read_section read_string b4) (\<lambda>ss b5.
        and_then (read_section read_int_array b5) (\<lambda>ia b6.
        and_then (read_section read_float_array b6) (\<lambda>fa b7.
        and_then (read_section read_string_array b7) (\<lambda>sa b8.
        and_then (read_section read_function b8) (\<lambda>fs b9.
        and_then (read_section read_string b9) (\<lambda>ns b10.
          Inr \<lparr>magic = m, version = v, flags = fl, code = c, constants = cs,
               strings = ss, intArrays = ia, floatArrays = fa, stringArrays = sa,
               functions_t = fs, nativeImports = ns\<rparr>))))))))))))"

subsection \<open>Images whose counts fit the 32-bit count fields\<close>

definition fits32 :: "'a list \<Rightarrow> bool" where
  "fits32 xs = (length xs < 2 ^ 32)"

definition image_fits :: "BytecodeFile \<Rightarrow> bool" where
  "image_fits f =
     (fits32 (code f) \<and> fits32 (constants f)
      \<and> fits32 (strings f) \<and> list_all fits32 (strings f)
      \<and> fits32 (intArrays f) \<and> list_all fits32 (intArrays f)
      \<and> fits32 (floatArrays f) \<and> list_all fits32 (floatArrays f)
      \<and> fits32 (stringArrays f) \<and> list_all fits32 (stringArrays f)
      \<and> list_all (list_all fits32) (stringArrays f)
      \<and> fits32 (functions_t f) \<and> list_all (\<lambda>fn. fits32 (name fn)) (functions_t f)
      \<and> fits32 (nativeImports f) \<and> list_all fits32 (nativeImports f))"

text \<open>An image whose code vector has \<open>2^32\<close> instructions.\<close>

definition big_image :: BytecodeFile where
  "big_image = empty_image\<lparr>code := replicate (2 ^ 32) (Instr OP_HALT 0)\<rparr>"

text \<open>A small image with every section populated.\<close>

definition sample_image :: BytecodeFile where
  "sample_image = empty_image\<lparr>
     code := [Instr OP_PUSH 0, Instr OP_PRINTLN 0, Instr OP_PUSH 1, Instr OP_RET 0,
              Instr OP_HALT 0],
     constants := [VString 0, VNil, VInt (- 2), VBool True, VFloat 0x3FF0000000000000],
     strings := [''hi''],
     intArrays := [[1, 2]],
     floatArrays := [[0]],
     stringArrays := [[''a'', []]],
     functions_t := [\<lparr>name = ''Main'', address = 0, arity = 0, locals = 0\<rparr>],
     nativeImports := [''System.clear'']\<rparr>"

section \<open>Lexer (lexer.h, lexer.cpp)\<close>

datatype TokenType =
    LEFT_PAREN | RIGHT_PAREN | LEFT_BRACE | RIGHT_BRACE | LEFT_BRACKET | RIGHT_BRACKET
  | COMMA | DOT | SEMICOLON | COLON
  | BANG | BANG_EQUAL | EQUAL | EQUAL_EQUAL | GREATER | GREATER_EQUAL | LESS | LESS_EQUAL
  | PLUS | PLUS_EQUAL | MINUS | MINUS_EQUAL | STAR | STAR_EQUAL | SLASH | SLASH_EQUAL
  | MOD | MOD_EQUAL
  | IDENTIFIER | STRING | NUMBER | FLOAT
  | AND_KW | OR_KW | NOT_KW | IF | ELSE | FOR | WHILE | DO | BREAK | CONTINUE | RETURN
  | TRUE | FALSE | NIL | FN | INCLUDE | INT_KW | FLOAT_TYPE | STR_KW | BOOL | BYTE | UNMUT | MUT
  | EOF_TOKEN | ERROR

record Token =
  tok_type :: TokenType
  tok_text :: string
  tok_line :: nat
  tok_column :: nat

record Lexer =
  source :: string
  start :: nat
  current :: nat
  line :: nat
  column :: nat
  tokens :: "Token list"
  errors :: "string list"

text \<open>The constructor: \<open>start(0), current(0), line(1), column(1)\<close>.\<close>

definition new_lexer :: "string \<Rightarrow> Lexer" where
  "new_lexer src = \<lparr>source = src, start = 0, current = 0, line = 1, column = 1,
     tokens = [], errors = []\<rparr>"

definition keyword_table :: "(string \<times> TokenType) list" where
  "keyword_table =
     [(''and'', AND_KW), (''or'', OR_KW), (''not'', NOT_KW), (''if'', IF), (''else'', ELSE),
      (''for'', FOR), (''while'', WHILE), (''do'', DO), (''break'', BREAK),
      (''continue'', CONTINUE), (''return'', RETURN), (''true'', TRUE), (''false'', FALSE),
      (''nil'', NIL), (''fn'', FN), (''include'', INCLUDE), (''int'', INT_KW),
      (''float'', FLOAT_TYPE), (''str'', STR_KW), (''bool'', BOOL), (''byte'', BYTE),
      (''unmut'', UNMUT), (''mut'', MUT)]"

definition isAtEnd :: "Lexer \<Rightarrow> bool" where
  "isAtEnd lx = (current lx \<ge> length (source lx))"

definition NUL :: char where
  "NUL = CHR 0x00"

definition advance :: "Lexer \<Rightarrow> char \<times> Lexer" where
  "advance lx =
     (if isAtEnd lx then (NUL, lx)
      else
        let c = source lx ! current lx;
            lx1 = lx\<lparr>current := current lx + 1\<rparr>
        in if c = CHR 0x0A then (c, lx1\<lparr>line := line lx1 + 1, column := 1\<rparr>)
           else (c, lx1\<lparr>column := column lx1 + 1\<rparr>))"

definition peek_char :: "Lexer \<Rightarrow> char" where
  "peek_char lx = (if isAtEnd lx then NUL else source lx ! current lx)"

definition peekNext :: "Lexer \<Rightarrow> char" where
  "peekNext lx =
     (if current lx + 1 \<ge> length (source lx) then NUL else source lx ! (current lx + 1))"

definition match_char :: "char \<Rightarrow> Lexer \<Rightarrow> bool \<times> Lexer" where
  "match_char expected lx =
     (if isAtEnd lx then (False, lx)
      else if source lx ! current lx \<noteq> expected then (False, lx)
      else (True, snd (advance lx)))"

text \<open>\<open>source.substr(start, current - start)\<close>\<close>

definition lexeme :: "Lexer \<Rightarrow> string" where
  "lexeme lx = take (current lx - start lx) (drop (start lx) (source lx))"

text \<open>Both overloads of \<open>addToken\<close> stamp the token with the current line and column.\<close>

definition addTokenText :: "TokenType \<Rightarrow> string \<Rightarrow> Lexer \<Rightarrow> Lexer" where
  "addTokenText ty txt lx =
     lx\<lparr>tokens := tokens lx @
          [\<lparr>tok_type = ty, tok_text = txt, tok_line = line lx, tok_column = column lx\<rparr>]\<rparr>"

definition addToken :: "TokenType \<Rightarrow> Lexer \<Rightarrow> Lexer" where
  "addToken ty lx = addTokenText ty (lexeme lx) lx"

definition lexer_error :: "string \<Rightarrow> Lexer \<Rightarrow> Lexer" where
  "lexer_error message lx =
     lx\<lparr>errors := errors lx @
          [''Lexer error at line '' @ nat_to_string (line lx) @ '', column ''
           @ nat_to_string (column lx) @ '': '' @ message]\<rparr>"

text \<open>\<open>isdigit\<close>, \<open>isalpha\<close>, \<open>isalnum\<close> in the C locale.\<close>

definition isdigit :: "char \<Rightarrow> bool" where
  "isdigit c = (48 \<le> (of_char c :: nat) \<and> (of_char c :: nat) \<le> 57)"

definition isalpha :: "char \<Rightarrow> bool" where
  "isalpha c = ((65 \<le> (of_char c :: nat) \<and> (of_char c :: nat) \<le> 90)
                \<or> (97 \<le> (of_char c :: nat) \<and> (of_char c :: nat) \<le> 122))"

definition isalnum :: "char \<Rightarrow> bool" where
  "isalnum c = (isalpha c \<or> isdigit c)"

text \<open>\<open>addToken(match('=') ? a : b)\<close>\<close>

definition two_char :: "TokenType \<Rightarrow> TokenType \<Rightarrow> Lexer \<Rightarrow> Lexer" where
  "two_char with_eq without lx =
     (case match_char (CHR ''='') lx of
        (True, lx') \<Rightarrow> addToken with_eq lx'
      | (False, lx') \<Rightarrow> addToken without lx')"

text \<open>\<open>while (peek() != '\n' && !isAtEnd()) advance();\<close>\<close>

function skip_comment :: "Lexer \<Rightarrow> Lexer" where
  "skip_comment lx =
     (if peek_char lx \<noteq> CHR 0x0A \<and> \<not> isAtEnd lx then skip_comment (snd (advance lx))
      else lx)"
  by pat_completeness auto
termination
  by (relation "measure (\<lambda>lx. length (source lx) - current lx)")
     (auto simp: advance_def isAtEnd_def Let_def)

text \<open>\<open>while (isdigit(peek())) advance();\<close>: \<open>peek()\<close> is NUL at the end.\<close>

function skip_digits :: "Lexer \<Rightarrow> Lexer" where
  "skip_digits lx =
     (if isdigit (peek_char lx) \<and> \<not> isAtEnd lx then skip_digits (snd (advance lx)) else lx)"
  by pat_completeness auto
termination
  by (relation "measure (\<lambda>lx. length (source lx) - current lx)")
     (auto simp: advance_def isAtEnd_def Let_def)

function skip_ident :: "Lexer \<Rightarrow> Lexer" where
  "skip_ident lx =
     (if (isalnum (peek_char lx) \<or> peek_char lx = CHR ''_'') \<and> \<not> isAtEnd lx
      then skip_ident (snd (advance lx)) else lx)"
  by pat_completeness auto
termination
  by (relation "measure (\<lambda>lx. length (source lx) - current lx)")
     (auto simp: advance_def isAtEnd_def Let_def)

definition escape_text :: "char \<Rightarrow> string" where
  "escape_text c =
     (if c = CHR ''n'' then [CHR 0x0A]
      else if c = CHR ''t'' then [CHR 0x09]
      else if c = CHR ''r'' then [CHR 0x0D]
      else if c = CHR 0x22 then [CHR 0x22]
      else if c = CHR 0x5C then [CHR 0x5C]
      else [CHR 0x5C, c])"

text \<open>
  The loop of \<open>scanString\<close>.  A newline in the literal is counted here and again by
  the \<open>advance\<close> that consumes it.
\<close>

function scanString_loop :: "Lexer \<Rightarrow> string \<Rightarrow> Lexer \<times> string" where
  "scanString_loop lx val =
     (if peek_char lx \<noteq> CHR 0x22 \<and> \<not> isAtEnd lx
      then
        let lx1 = (if peek_char lx = CHR 0x0A then lx\<lparr>line := line lx + 1, column := 1\<rparr>
                   else lx)
        in if peek_char lx1 = CHR 0x5C
           then let lx2 = snd (advance lx1)
                in scanString_loop (snd (advance lx2)) (val @ escape_text (peek_char lx2))
           else scanString_loop (snd (advance lx1)) (val @ [fst (advance lx1)])
      else (lx, val))"
  by pat_completeness auto
termination
  by (relation "measure (\<lambda>(lx, val). length (source lx) - current lx)")
     (auto simp: advance_def isAtEnd_def peek_char_def Let_def split: if_splits)

definition scanString :: "Lexer \<Rightarrow> Lexer" where
  "scanString lx =
     (case scanString_loop lx [] of
        (lx1, val) \<Rightarrow>
          if isAtEnd lx1 then lexer_error ''Unterminated string'' lx1
          else addTokenText STRING val (snd (advance lx1)))"

definition scanNumber :: "Lexer \<Rightarrow> Lexer" where
  "scanNumber lx =
     (let lx1 = skip_digits lx
      in if peek_char lx1 = CHR ''.'' \<and> isdigit (peekNext lx1)
         then let lx2 = skip_digits (snd (advance lx1)) in addTokenText FLOAT (lexeme lx2) lx2
         else addTokenText NUMBER (lexeme lx1) lx1)"

definition scanIdentifier :: "Lexer \<Rightarrow> Lexer" where
  "scanIdentifier lx =
     (let lx1 = skip_ident lx
      in case map_of keyword_table (lexeme lx1) of
           Some ty \<Rightarrow> addToken ty lx1
         | None \<Rightarrow> addTokenText IDENTIFIER (lexeme lx1) lx1)"

definition scan_slash :: "Lexer \<Rightarrow> Lexer" where
  "scan_slash lx =
     (case match_char (CHR ''/'') lx of
        (True, lx1) \<Rightarrow> skip_comment lx1
      | (False, lx1) \<Rightarrow>
          (case match_char (CHR ''='') lx1 of
             (True, lx2) \<Rightarrow> addToken SLASH_EQUAL lx2
           | (False, lx2) \<Rightarrow> addToken SLASH lx2))"

definition scanToken :: "Lexer \<Rightarrow> Lexer" where
  "scanToken lx0 =
     (let c = fst (advance lx0); lx = snd (advance lx0)
      in if c = CHR ''('' then addToken LEFT_PAREN lx
         else if c = CHR '')'' then addToken RIGHT_PAREN lx
         else if c = CHR ''{'' then addToken LEFT_BRACE lx
         else if c = CHR ''}'' then addToken RIGHT_BRACE lx
         else if c = CHR ''['' then addToken LEFT_BRACKET lx
         else if c = CHR '']'' then addToken RIGHT_BRACKET lx
         else if c = CHR '','' then addToken COMMA lx
         else if c = CHR ''.'' then addToken DOT lx
         else if c = CHR '';'' then addToken SEMICOLON lx
         else if c = CHR '':'' then addToken COLON lx
         else if c = CHR ''!'' then two_char BANG_EQUAL BANG lx
         else if c = CHR ''='' then two_char EQUAL_EQUAL EQUAL lx
         else if c = CHR ''>'' then two_char GREATER_EQUAL GREATER lx
         else if c = CHR ''<'' then two_char LESS_EQUAL LESS lx
         else if c = CHR ''+'' then two_char PLUS_EQUAL PLUS lx
         else if c = CHR ''-'' then two_char MINUS_EQUAL MINUS lx
         else if c = CHR ''*'' then two_char STAR_EQUAL STAR lx
         else if c = CHR ''/'' then scan_slash lx
         else if c = CHR ''%'' then two_char MOD_EQUAL MOD lx
         else if c = CHR '' '' \<or> c = CHR 0x0D \<or> c = CHR 0x09 then lx
         else if c = CHR 0x0A then lx\<lparr>line := line lx + 1, column := 1\<rparr>
         else if c = CHR 0x22 then scanString lx
         else if isdigit c then scanNumber lx
         else if isalpha c \<or> c = CHR ''_'' then scanIdentifier lx
         else lexer_error (''Unexpected character: '' @ [c]) lx)"

text \<open>
  The loop of \<open>tokenize\<close>.  Every \<open>scanToken\<close> consumes at least one character, so
  \<open>length source\<close> iterations are enough; \<open>None\<close> would mean that they were not.
\<close>

fun tokenize_loop :: "nat \<Rightarrow> Lexer \<Rightarrow> Lexer option" where
  "tokenize_loop 0 lx = (if isAtEnd lx then Some lx else None)"
| "tokenize_loop (Suc n) lx =
     (if isAtEnd lx then Some lx
      else tokenize_loop n (scanToken (lx\<lparr>start := current lx\<rparr>)))"

definition tokenize :: "string \<Rightarrow> (Token list \<times> string list) option" where
  "tokenize src =
     (case tokenize_loop (length src) (new_lexer src) of
        None \<Rightarrow> None
      | Some lx \<Rightarrow>
          Some (tokens lx @ [\<lparr>tok_type = EOF_TOKEN, tok_text = [], tok_line = line lx,
                              tok_column = column lx\<rparr>],
                errors lx))"

section \<open>Abstract syntax (value.h, ast.h, parser.h)\<close>

text \<open>The compile-time \<open>Value\<close> of value.h, which owns its strings and arrays.\<close>

datatype AstValue =
    ANil
  | AInt i64
  | AFloat f64
  | ABool bool
  | AStr string
  | AIntArray "i64 list"
  | AFloatArray "f64 list"
  | AStrArray "string list"

text \<open>
  Nodes are held through \<open>shared_ptr\<close>; \<open>NullExpr\<close> and \<open>NullStmt\<close> are the null
  pointer, which marks an absent optional child and is also what \<open>parsePrimary\<close>
  returns after an error.  The operator of a binary, comparison or logical node is
  its text.
\<close>

datatype Expr =
    NullExpr
  | LiteralExpr AstValue
  | VariableExpr string
  | BinaryExpr Expr string Expr
  | CompareExpr Expr string Expr
  | LogicalExpr Expr string Expr
  | CallExpr string string "Expr list" bool
  | ArrayExpr "Expr list"
  | IndexExpr Expr Expr
  | GetExpr Expr string

datatype Stmt =
    NullStmt
  | ExprStmt Expr
  | VarDeclStmt bool string string Expr
  | AssignStmt string Expr
  | BlockStmt "Stmt list"
  | FunctionStmt string "(string \<times> string) list" "Stmt list"
  | ReturnStmt Expr
  | IfStmt Expr Stmt Stmt
  | WhileStmt Expr Stmt
  | ForStmt Stmt Expr Expr Stmt
  | BreakStmt
  | ContinueStmt
  | ArrayDeclStmt string string Expr Expr

section \<open>Compiler (compiler.h, compiler.cpp)\<close>

datatype compile_error =
    CompileError string
  | CompilerUB string

record LocalVar =
  lv_name :: string
  lv_index :: u32
  isParam :: bool

text \<open>
  \<open>varMap\<close> is a \<open>std::map\<close>; here the newest binding of a name is in front and
  is the one a lookup finds.
\<close>

record FunctionContext =
  ctx_locals :: "LocalVar list"
  varMap :: "(string \<times> u32) list"
  nextLocal :: u32
  startAddr :: u32
  paramCount :: u32

text \<open>The default member initialisers of \<open>FunctionContext\<close>.\<close>

definition new_context :: FunctionContext where
  "new_context = \<lparr>ctx_locals = [], varMap = [], nextLocal = 0, startAddr = 0, paramCount = 0\<rparr>"

text \<open>
  \<open>LoopContext\<close> also declares \<open>breakAddr\<close> and \<open>continueAddr\<close>, which are never
  initialised or read.
\<close>

record LoopContext =
  breakPatches :: "u32 list"
  continuePatches :: "u32 list"

definition new_loop :: LoopContext where
  "new_loop = \<lparr>breakPatches = [], continuePatches = []\<rparr>"

record Compiler =
  bytecode :: BytecodeFile
  contextStack :: "FunctionContext list"
  loopStack :: "LoopContext list"
  globalMap :: "(string \<times> u32) list"
  functionAddrs :: "(string \<times> u32) list"

text \<open>\<open>Compiler::Compiler()\<close> pushes one context.\<close>

definition new_compiler :: Compiler where
  "new_compiler = \<lparr>bytecode = empty_image, contextStack = [new_context], loopStack = [],
     globalMap = [], functionAddrs = []\<rparr>"

type_synonym compile_step = "Compiler \<Rightarrow> compile_error + Compiler"

subsection \<open>Code generation\<close>

definition code_size :: "Compiler \<Rightarrow> u32" where
  "code_size c = word_of_nat (length (code (bytecode c)))"

definition emit :: "u8 \<Rightarrow> u32 \<Rightarrow> Compiler \<Rightarrow> Compiler" where
  "emit op opnd c =
     c\<lparr>bytecode := (bytecode c)\<lparr>code := code (bytecode c) @ [Instr op opnd]\<rparr>\<rparr>"

text \<open>\<open>emitJump\<close> returns \<open>code.size() - 1\<close>, the index of the jump it emitted.\<close>

definition emitJump :: "u8 \<Rightarrow> Compiler \<Rightarrow> u32 \<times> Compiler" where
  "emitJump op c = (let c' = emit op 0xFFFFFFFF c in (code_size c' - 1, c'))"

definition set_operand :: "u32 \<Rightarrow> u32 \<Rightarrow> Compiler \<Rightarrow> compile_error + Compiler" where
  "set_operand addr target c =
     (if unat addr \<ge> length (code (bytecode c)) then Inl (CompilerUB ''code[addr]'')
      else Inr (c\<lparr>bytecode := (bytecode c)\<lparr>code :=
                  (code (bytecode c))[unat addr := (code (bytecode c) ! unat addr)\<lparr>operand := target\<rparr>]\<rparr>\<rparr>))"

definition patchJump :: "u32 \<Rightarrow> compile_step" where
  "patchJump jumpAddr c = set_operand jumpAddr (code_size c) c"

fun patchJumps :: "u32 list \<Rightarrow> u32 \<Rightarrow> compile_step" where
  "patchJumps [] target c = Inr c"
| "patchJumps (addr # patches) target c =
     (case set_operand addr target c of
        Inl e \<Rightarrow> Inl e
      | Inr c' \<Rightarrow> patchJumps patches target c')"

subsection \<open>Constants\<close>

text \<open>Index of the first element that satisfies \<open>p\<close>, counting from \<open>i\<close>.\<close>

fun first_index :: "('a \<Rightarrow> bool) \<Rightarrow> 'a list \<Rightarrow> nat \<Rightarrow> nat option" where
  "first_index p [] i = None"
| "first_index p (x # xs) i = (if p x then Some i else first_index p xs (Suc i))"

definition push_constant :: "Constant \<Rightarrow> Compiler \<Rightarrow> u32 \<times> Compiler" where
  "push_constant cst c =
     (word_of_nat (length (constants (bytecode c))),
      c\<lparr>bytecode := (bytecode c)\<lparr>constants := constants (bytecode c) @ [cst]\<rparr>\<rparr>)"

definition add_constant :: "(Constant \<Rightarrow> bool) \<Rightarrow> Constant \<Rightarrow> Compiler \<Rightarrow> u32 \<times> Compiler"
  where
  "add_constant same cst c =
     (case first_index same (constants (bytecode c)) 0 of
        Some i \<Rightarrow> (word_of_nat i, c)
      | None \<Rightarrow> push_constant cst c)"

definition addConstantInt :: "i64 \<Rightarrow> Compiler \<Rightarrow> u32 \<times> Compiler" where
  "addConstantInt v = add_constant (\<lambda>k. type_of k = TYPE_INT \<and> intVal k = v) (VInt v)"

text \<open>\<open>==\<close> on doubles: false for a NaN, true for the two zeros.\<close>

definition float_is_nan :: "f64 \<Rightarrow> bool" where
  "float_is_nan x =
     (x AND 0x7FF0000000000000 = 0x7FF0000000000000 \<and> x AND 0x000FFFFFFFFFFFFF \<noteq> 0)"

definition float_eq :: "f64 \<Rightarrow> f64 \<Rightarrow> bool" where
  "float_eq a b =
     (\<not> float_is_nan a \<and> \<not> float_is_nan b \<and> (a = b \<or> (float_is_zero a \<and> float_is_zero b)))"

definition addConstantFloat :: "f64 \<Rightarrow> Compiler \<Rightarrow> u32 \<times> Compiler" where
  "addConstantFloat v =
     add_constant (\<lambda>k. type_of k = TYPE_FLOAT \<and> float_eq (floatVal k) v) (VFloat v)"

definition addConstantBool :: "bool \<Rightarrow> Compiler \<Rightarrow> u32 \<times> Compiler" where
  "addConstantBool v = add_constant (\<lambda>k. type_of k = TYPE_BOOL \<and> boolVal k = v) (VBool v)"

text \<open>
  \<open>addConstantString\<close>: for every string-table entry equal to the value, in order,
  look for a string constant that refers to it; otherwise append both.
\<close>

fun find_string_constant :: "string \<Rightarrow> string list \<Rightarrow> nat \<Rightarrow> Constant list \<Rightarrow> nat option"
  where
  "find_string_constant v [] i cs = None"
| "find_string_constant v (s # ss) i cs =
     (if s = v
      then (case first_index (\<lambda>k. type_of k = TYPE_STRING \<and> stringIdx k = word_of_nat i) cs 0 of
              Some j \<Rightarrow> Some j
            | None \<Rightarrow> find_string_constant v ss (Suc i) cs)
      else find_string_constant v ss (Suc i) cs)"

definition addConstantString :: "string \<Rightarrow> Compiler \<Rightarrow> u32 \<times> Compiler" where
  "addConstantString v c =
     (case find_string_constant v (strings (bytecode c)) 0 (constants (bytecode c)) of
        Some j \<Rightarrow> (word_of_nat j, c)
      | None \<Rightarrow>
          let strIdx = (word_of_nat (length (strings (bytecode c))) :: u32);
              c1 = c\<lparr>bytecode := (bytecode c)\<lparr>strings := strings (bytecode c) @ [v]\<rparr>\<rparr>
          in push_constant (VString strIdx) c1)"

definition emitPush :: "u32 \<times> Compiler \<Rightarrow> Compiler" where
  "emitPush r = emit OP_PUSH (fst r) (snd r)"

definition emitPushInt :: "i64 \<Rightarrow> Compiler \<Rightarrow> Compiler" where
  "emitPushInt v c = emitPush (addConstantInt v c)"

definition emitPushFloat :: "f64 \<Rightarrow> Compiler \<Rightarrow> Compiler" where
  "emitPushFloat v c = emitPush (addConstantFloat v c)"

definition emitPushBool :: "bool \<Rightarrow> Compiler \<Rightarrow> Compiler" where
  "emitPushBool v c = emitPush (addConstantBool v c)"

definition emitPushString :: "string \<Rightarrow> Compiler \<Rightarrow> Compiler" where
  "emitPushString v c = emitPush (addConstantString v c)"

definition emitPushNil :: "Compiler \<Rightarrow> Compiler" where
  "emitPushNil c = emitPush (push_constant VNil c)"

definition addNativeImport :: "string \<Rightarrow> Compiler \<Rightarrow> u32 \<times> Compiler" where
  "addNativeImport n c =
     (case first_index (\<lambda>s. s = n) (nativeImports (bytecode c)) 0 of
        Some i \<Rightarrow> (word_of_nat i, c)
      | None \<Rightarrow>
          (word_of_nat (length (nativeImports (bytecode c))),
           c\<lparr>bytecode := (bytecode c)\<lparr>nativeImports := nativeImports (bytecode c) @ [n]\<rparr>\<rparr>))"

text \<open>\<open>compileNewArray\<close> is only called with size 0.\<close>

definition array_constant :: "u8 \<Rightarrow> u32 \<Rightarrow> Constant" where
  "array_constant elemType sz =
     (if elemType = TYPE_ARRAY_INT then VArrayInt sz
      else if elemType = TYPE_ARRAY_FLOAT then VArrayFloat sz
      else VArrayString sz)"

definition compileNewArray :: "u8 \<Rightarrow> u32 \<Rightarrow> Compiler \<Rightarrow> Compiler" where
  "compileNewArray elemType sz c =
     (case push_constant (array_constant elemType sz) c of
        (constIdx, c') \<Rightarrow> emit OP_NEW_ARRAY constIdx c')"

subsection \<open>Variables\<close>

text \<open>\<open>resolveLocal\<close> searches the context stack from the top.\<close>

fun resolve_in :: "FunctionContext list \<Rightarrow> string \<Rightarrow> u32" where
  "resolve_in [] n = UINT32_MAX"
| "resolve_in (ctx # below) n =
     (case map_of (varMap ctx) n of Some idx \<Rightarrow> idx | None \<Rightarrow> resolve_in below n)"

definition resolveLocal :: "string \<Rightarrow> Compiler \<Rightarrow> u32" where
  "resolveLocal n c = resolve_in (rev (contextStack c)) n"

definition resolveGlobal :: "string \<Rightarrow> Compiler \<Rightarrow> u32" where
  "resolveGlobal n c = (case map_of (globalMap c) n of Some idx \<Rightarrow> idx | None \<Rightarrow> UINT32_MAX)"

text \<open>\<open>FunctionContext::addLocal\<close>, which returns \<open>nextLocal++\<close>.\<close>

definition ctx_addLocal :: "string \<Rightarrow> bool \<Rightarrow> FunctionContext \<Rightarrow> u32 \<times> FunctionContext" where
  "ctx_addLocal n isP ctx =
     (nextLocal ctx,
      ctx\<lparr>varMap := (n, nextLocal ctx) # varMap ctx,
          ctx_locals := ctx_locals ctx @ [\<lparr>lv_name = n, lv_index = nextLocal ctx, isParam = isP\<rparr>],
          nextLocal := nextLocal ctx + 1\<rparr>)"

text \<open>\<open>currentContext().addLocal(name)\<close> followed by \<open>emit(OP_STORE, localIdx)\<close>.\<close>

definition declare_and_store :: "string \<Rightarrow> compile_step" where
  "declare_and_store n c =
     (if contextStack c = [] then Inl (CompilerUB ''contextStack.back()'')
      else case ctx_addLocal n False (last (contextStack c)) of
             (localIdx, ctx') \<Rightarrow>
               Inr (emit OP_STORE localIdx (c\<lparr>contextStack := butlast (contextStack c) @ [ctx']\<rparr>)))"

fun add_params :: "(string \<times> string) list \<Rightarrow> FunctionContext \<Rightarrow> FunctionContext" where
  "add_params [] ctx = ctx"
| "add_params ((ty, n) # ps) ctx = add_params ps (snd (ctx_addLocal n True ctx))"

subsection \<open>Expressions\<close>

definition compileLiteral :: "AstValue \<Rightarrow> compile_step" where
  "compileLiteral v c =
     (case v of
        AInt i \<Rightarrow> Inr (emitPushInt i c)
      | AFloat d \<Rightarrow> Inr (emitPushFloat d c)
      | ABool b \<Rightarrow> Inr (emitPushBool b c)
      | AStr s \<Rightarrow> Inr (emitPushString s c)
      | ANil \<Rightarrow> Inr (emitPushNil c)
      | _ \<Rightarrow> Inl (CompileError ''Unsupported literal type''))"

definition compileVariable :: "string \<Rightarrow> compile_step" where
  "compileVariable n c =
     (if resolveLocal n c \<noteq> UINT32_MAX then Inr (emit OP_LOAD (resolveLocal n c) c)
      else if resolveGlobal n c \<noteq> UINT32_MAX then Inr (emit OP_LOAD_GLOBAL (resolveGlobal n c) c)
      else Inl (CompileError (''Undefined variable: '' @ n)))"

definition binary_opcode :: "string \<Rightarrow> compile_step" where
  "binary_opcode op c =
     (if op = ''+'' then Inr (emit OP_ADD 0 c)
      else if op = ''-'' then Inr (emit OP_SUB 0 c)
      else if op = ''*'' then Inr (emit OP_MUL 0 c)
      else if op = ''/'' then Inr (emit OP_DIV 0 c)
      else if op = ''%'' then Inr (emit OP_MOD 0 c)
      else Inl (CompileError (''Unknown binary operator: '' @ op)))"

definition compare_opcode :: "string \<Rightarrow> compile_step" where
  "compare_opcode op c =
     (if op = ''=='' then Inr (emit OP_EQ 0 c)
      else if op = ''!='' then Inr (emit OP_NEQ 0 c)
      else if op = ''<'' then Inr (emit OP_LT 0 c)
      else if op = ''<='' then Inr (emit OP_LTE 0 c)
      else if op = ''>'' then Inr (emit OP_GT 0 c)
      else if op = ''>='' then Inr (emit OP_GTE 0 c)
      else Inl (CompileError (''Unknown comparison operator: '' @ op)))"

text \<open>The part of \<open>compileCall\<close> after the arguments have been compiled.\<close>

definition emit_call :: "string \<Rightarrow> string \<Rightarrow> bool \<Rightarrow> compile_step" where
  "emit_call className methodName isNative c =
     (if isNative
      then
        let fullName = className @ ''.'' @ methodName
        in if fullName = ''Console.println'' then Inr (emit OP_PRINTLN 0 c)
           else if fullName = ''Console.print'' then Inr (emit OP_PRINT 0 c)
           else if fullName = ''Console.read'' then Inr (emit OP_READ 0 c)
           else (case addNativeImport fullName c of
                   (idx, c') \<Rightarrow> Inr (emit OP_CALL_NATIVE idx c'))
      else
        let functionToCall = (if className \<noteq> [] then className @ ''_'' @ methodName
                              else methodName)
        in case map_of (functionAddrs c) functionToCall of
             Some addr \<Rightarrow> Inr (emit OP_CALL addr c)
           | None \<Rightarrow>
               (case map_of (functionAddrs c) methodName of
                  Some addr \<Rightarrow> Inr (emit OP_CALL addr c)
                | None \<Rightarrow>
                    Inl (CompileError (''Function '' @ className @ ''.'' @ methodName
                                       @ '' not found''))))"

fun compileExpr :: "Expr \<Rightarrow> compile_step"
  and compileExprs :: "Expr list \<Rightarrow> compile_step" where
  "compileExpr (LiteralExpr v) c = compileLiteral v c"
| "compileExpr (VariableExpr n) c = compileVariable n c"
| "compileExpr (BinaryExpr l op r) c =
     (case compileExpr l c of
        Inl e \<Rightarrow> Inl e
      | Inr c1 \<Rightarrow>
          (case compileExpr r c1 of
             Inl e \<Rightarrow> Inl e
           | Inr c2 \<Rightarrow> binary_opcode op c2))"
| "compileExpr (CompareExpr l op r) c =
     (case compileExpr l c of
        Inl e \<Rightarrow> Inl e
      | Inr c1 \<Rightarrow>
          (case compileExpr r c1 of
             Inl e \<Rightarrow> Inl e
           | Inr c2 \<Rightarrow> compare_opcode op c2))"
| "compileExpr (LogicalExpr l op r) c =
     (if op = ''!''
      then (case compileExpr r c of
              Inl e \<Rightarrow> Inl e
            | Inr c1 \<Rightarrow> Inr (emit OP_NOT 0 c1))
      else if op = ''&&''
      then (case compileExpr l c of
              Inl e \<Rightarrow> Inl e
            | Inr c1 \<Rightarrow>
                (case emitJump OP_JMP_IFNOT c1 of
                   (jump, c2) \<Rightarrow>
                     (case compileExpr r c2 of
                        Inl e \<Rightarrow> Inl e
                      | Inr c3 \<Rightarrow> patchJump jump c3)))
      else if op = ''||''
      then (case compileExpr l c of
              Inl e \<Rightarrow> Inl e
            | Inr c1 \<Rightarrow>
                (case emitJump OP_JMP_IF c1 of
                   (jump, c2) \<Rightarrow>
                     (case compileExpr r c2 of
                        Inl e \<Rightarrow> Inl e
                      | Inr c3 \<Rightarrow> patchJump jump c3)))
      else Inl (CompileError (''Unknown logical operator: '' @ op)))"
| "compileExpr (CallExpr className methodName args isNative) c =
     (case compileExprs args c of
        Inl e \<Rightarrow> Inl e
      | Inr c1 \<Rightarrow> emit_call className methodName isNative c1)"
| "compileExpr (ArrayExpr elements) c =
     (if elements = [] then Inl (CompileError ''Empty array needs type specification'')
      else (case compileExprs elements c of
              Inl e \<Rightarrow> Inl e
            | Inr c1 \<Rightarrow> Inr (emit OP_NEW_ARRAY 0 (emitPushInt (word_of_nat (length elements)) c1))))"
| "compileExpr (IndexExpr arr idx) c =
     (case compileExpr arr c of
        Inl e \<Rightarrow> Inl e
      | Inr c1 \<Rightarrow>
          (case compileExpr idx c1 of
             Inl e \<Rightarrow> Inl e
           | Inr c2 \<Rightarrow> Inr (emit OP_LOAD_INDEX 0 c2)))"
| "compileExpr (GetExpr obj n) c = Inl (CompileError ''Unknown expression type'')"
| "compileExpr NullExpr c = Inl (CompileError ''Unknown expression type'')"
| "compileExprs [] c = Inr c"
| "compileExprs (e # es) c =
     (case compileExpr e c of
        Inl err \<Rightarrow> Inl err
      | Inr c1 \<Rightarrow> compileExprs es c1)"

subsection \<open>Statements\<close>

text \<open>\<open>countLocals\<close>: the pre-pass that sizes a function's slot window.\<close>

fun countLocals :: "Stmt list \<Rightarrow> u32 \<Rightarrow> u32"
  and countLocal :: "Stmt \<Rightarrow> u32 \<Rightarrow> u32" where
  "countLocals [] n = n"
| "countLocals (s # ss) n = countLocals ss (countLocal s n)"
| "countLocal (VarDeclStmt m ty nm init) n = n + 1"
| "countLocal (BlockStmt ss) n = countLocals ss n"
| "countLocal (IfStmt cond thenBranch elseBranch) n =
     (let n1 = countLocal thenBranch n
      in if elseBranch \<noteq> NullStmt then countLocal elseBranch n1 else n1)"
| "countLocal (WhileStmt cond body) n = countLocal body n"
| "countLocal (ForStmt init cond inc body) n =
     countLocal body (case init of VarDeclStmt m ty nm e \<Rightarrow> n + 1 | _ \<Rightarrow> n)"
| "countLocal s n = n"

definition default_push :: "string \<Rightarrow> Compiler \<Rightarrow> Compiler" where
  "default_push ty c =
     (if ty = ''int'' then emitPushInt 0 c
      else if ty = ''float'' then emitPushFloat 0 c
      else if ty = ''bool'' then emitPushBool False c
      else if ty = ''str'' then emitPushString [] c
      else emitPushNil c)"

definition compileVarDecl :: "string \<Rightarrow> string \<Rightarrow> Expr \<Rightarrow> compile_step" where
  "compileVarDecl ty nm init c =
     (if init \<noteq> NullExpr
      then (case compileExpr init c of
              Inl e \<Rightarrow> Inl e
            | Inr c1 \<Rightarrow> declare_and_store nm c1)
      else declare_and_store nm (default_push ty c))"

definition compileAssign :: "string \<Rightarrow> Expr \<Rightarrow> compile_step" where
  "compileAssign nm v c =
     (case compileExpr v c of
        Inl e \<Rightarrow> Inl e
      | Inr c1 \<Rightarrow>
          if resolveLocal nm c1 \<noteq> UINT32_MAX then Inr (emit OP_STORE (resolveLocal nm c1) c1)
          else if resolveGlobal nm c1 \<noteq> UINT32_MAX
          then Inr (emit OP_STORE_GLOBAL (resolveGlobal nm c1) c1)
          else Inl (CompileError (''Undefined variable: '' @ nm)))"

fun is_console_print :: "Expr \<Rightarrow> bool" where
  "is_console_print (CallExpr className methodName args isNative) =
     (isNative \<and> (className @ ''.'' @ methodName = ''Console.println''
                  \<or> className @ ''.'' @ methodName = ''Console.print''))"
| "is_console_print e = False"

definition compileExprStmt :: "Expr \<Rightarrow> compile_step" where
  "compileExprStmt e c =
     (case compileExpr e c of
        Inl err \<Rightarrow> Inl err
      | Inr c1 \<Rightarrow> if is_console_print e then Inr c1 else Inr (emit OP_POP 0 c1))"

definition compileReturn :: "Expr \<Rightarrow> compile_step" where
  "compileReturn v c =
     (if v \<noteq> NullExpr
      then (case compileExpr v c of
              Inl e \<Rightarrow> Inl e
            | Inr c1 \<Rightarrow> Inr (emit OP_RET 0 c1))
      else Inr (emit OP_RET 0 (emitPushNil c)))"

text \<open>\<open>loopStack.back().breakPatches.push_back(jump)\<close> and its twin.\<close>

definition add_break_patch :: "u32 \<Rightarrow> Compiler \<Rightarrow> Compiler" where
  "add_break_patch jump c =
     c\<lparr>loopStack := butlast (loopStack c)
          @ [(last (loopStack c))\<lparr>breakPatches := breakPatches (last (loopStack c)) @ [jump]\<rparr>]\<rparr>"

definition add_continue_patch :: "u32 \<Rightarrow> Compiler \<Rightarrow> Compiler" where
  "add_continue_patch jump c =
     c\<lparr>loopStack := butlast (loopStack c)
          @ [(last (loopStack c))\<lparr>continuePatches :=
               continuePatches (last (loopStack c)) @ [jump]\<rparr>]\<rparr>"

definition compileBreak :: compile_step where
  "compileBreak c =
     (if loopStack c = [] then Inl (CompileError ''Break outside loop'')
      else case emitJump OP_JMP c of (jump, c1) \<Rightarrow> Inr (add_break_patch jump c1))"

definition compileContinue :: compile_step where
  "compileContinue c =
     (if loopStack c = [] then Inl (CompileError ''Continue outside loop'')
      else case emitJump OP_JMP c of (jump, c1) \<Rightarrow> Inr (add_continue_patch jump c1))"

text \<open>
  \<open>if (!loopStack.back().continuePatches.empty()) patchJumps(..., bytecode.code.size())\<close>
  and the same for the break list.
\<close>

definition patch_continues :: compile_step where
  "patch_continues c =
     (if loopStack c = [] then Inl (CompilerUB ''loopStack.back()'')
      else patchJumps (continuePatches (last (loopStack c))) (code_size c) c)"

definition patch_breaks :: compile_step where
  "patch_breaks c =
     (if loopStack c = [] then Inl (CompilerUB ''loopStack.back()'')
      else patchJumps (breakPatches (last (loopStack c))) (code_size c) c)"

definition pop_loop :: "Compiler \<Rightarrow> Compiler" where
  "pop_loop c = c\<lparr>loopStack := butlast (loopStack c)\<rparr>"

definition pop_context :: "Compiler \<Rightarrow> Compiler" where
  "pop_context c = c\<lparr>contextStack := butlast (contextStack c)\<rparr>"

text \<open>The end of \<open>compileWhile\<close>, after the body.\<close>

definition finish_while :: "u32 \<Rightarrow> u32 \<Rightarrow> compile_step" where
  "finish_while loopStart exitJump c =
     (case patch_continues c of
        Inl e \<Rightarrow> Inl e
      | Inr c1 \<Rightarrow>
          (case patchJump exitJump (emit OP_JMP loopStart c1) of
             Inl e \<Rightarrow> Inl e
           | Inr c2 \<Rightarrow>
               (case patch_breaks c2 of
                  Inl e \<Rightarrow> Inl e
                | Inr c3 \<Rightarrow> Inr (pop_loop c3))))"

text \<open>
  The end of \<open>compileFor\<close>, after the body: the increment, the jump back, and the
  patching of the break list of \<open>loopStack.back()\<close>.
\<close>

definition finish_for :: "u32 \<Rightarrow> Expr \<Rightarrow> compile_step" where
  "finish_for loopStart inc c =
     (case patch_continues c of
        Inl e \<Rightarrow> Inl e
      | Inr c1 \<Rightarrow>
          (case (if inc \<noteq> NullExpr
                 then (case compileExpr inc c1 of
                         Inl e \<Rightarrow> Inl e
                       | Inr c2 \<Rightarrow> Inr (emit OP_POP 0 c2))
                 else Inr c1) of
             Inl e \<Rightarrow> Inl e
           | Inr c3 \<Rightarrow>
               (case patch_breaks (emit OP_JMP loopStart c3) of
                  Inl e \<Rightarrow> Inl e
                | Inr c4 \<Rightarrow> Inr (pop_loop c4))))"

text \<open>
  The condition of a \<open>for\<close> loop.  The source pushes the exit jump onto
  \<open>loop.breakPatches\<close>, where \<open>loop\<close> is the local \<open>LoopContext\<close> that was copied
  into \<open>loopStack\<close> before: the copy on the stack is not changed, so the result is
  the compiler state after \<open>emitJump\<close> and the local variable is returned beside it.
\<close>

definition for_condition :: "Expr \<Rightarrow> LoopContext \<Rightarrow> Compiler \<Rightarrow> compile_error + (LoopContext \<times> Compiler)"
  where
  "for_condition cond loop c =
     (if cond \<noteq> NullExpr
      then (case compileExpr cond c of
              Inl e \<Rightarrow> Inl e
            | Inr c1 \<Rightarrow>
                (case emitJump OP_JMP_IFNOT c1 of
                   (exitJump, c2) \<Rightarrow>
                     Inr (loop\<lparr>breakPatches := breakPatches loop @ [exitJump]\<rparr>, c2)))
      else Inr (loop, c))"

text \<open>\<open>std::filesystem::path(p).stem()\<close> on a POSIX path.\<close>

definition path_filename :: "string \<Rightarrow> string" where
  "path_filename p = rev (takeWhile (\<lambda>ch. ch \<noteq> CHR ''/'') (rev p))"

definition path_stem :: "string \<Rightarrow> string" where
  "path_stem p =
     (let f = path_filename p;
          base = rev (tl (dropWhile (\<lambda>ch. ch \<noteq> CHR ''.'') (rev f)))
      in if f = ''..'' \<or> CHR ''.'' \<notin> set f \<or> base = [] then f else base)"

definition function_name :: "string \<Rightarrow> string \<Rightarrow> string" where
  "function_name nm sourceFileName =
     (if sourceFileName \<noteq> [] \<and> nm \<noteq> ''Main'' then path_stem sourceFileName @ ''_'' @ nm
      else nm)"

text \<open>\<open>compileFunction\<close> up to the body: addresses, the counting pass, the context.\<close>

definition enter_function :: "string \<Rightarrow> (string \<times> string) list \<Rightarrow> string \<Rightarrow> Compiler \<Rightarrow> Compiler"
  where
  "enter_function nm params sourceFileName c =
     (let funcAddr = code_size c;
          addrs1 = (function_name nm sourceFileName, funcAddr) # functionAddrs c;
          addrs2 = (if nm \<noteq> ''Main'' then (nm, funcAddr) # addrs1 else addrs1);
          funcCtx = add_params params
                      (new_context\<lparr>startAddr := funcAddr,
                                   paramCount := word_of_nat (length params)\<rparr>)
      in c\<lparr>functionAddrs := addrs2, contextStack := contextStack c @ [funcCtx]\<rparr>)"

text \<open>\<open>compileFunction\<close> after the body: the implicit return and the symbol entry.\<close>

definition needs_return :: "Compiler \<Rightarrow> bool" where
  "needs_return c =
     (code (bytecode c) = []
      \<or> (opcode (last (code (bytecode c))) \<noteq> OP_RET
          \<and> opcode (last (code (bytecode c))) \<noteq> OP_HALT))"

definition leave_function ::
  "string \<Rightarrow> (string \<times> string) list \<Rightarrow> Stmt list \<Rightarrow> string \<Rightarrow> u32 \<Rightarrow> Compiler \<Rightarrow> Compiler"
  where
  "leave_function nm params body sourceFileName funcAddr c =
     (let c1 = (if needs_return c then emit OP_RET 0 (emitPushNil c) else c);
          c2 = pop_context c1;
          info = \<lparr>name = function_name nm sourceFileName, address = funcAddr,
                   arity = word_of_nat (length params),
                   locals = ucast (countLocals body (word_of_nat (length params)))\<rparr>
      in c2\<lparr>bytecode := (bytecode c2)\<lparr>functions_t := functions_t (bytecode c2) @ [info]\<rparr>\<rparr>)"

fun compileStmt :: "Stmt \<Rightarrow> compile_step"
  and compileStmts :: "Stmt list \<Rightarrow> compile_step"
  and compileFunction :: "string \<Rightarrow> (string \<times> string) list \<Rightarrow> Stmt list \<Rightarrow> string \<Rightarrow> compile_step"
  where
  "compileStmt (VarDeclStmt m ty nm init) c = compileVarDecl ty nm init c"
| "compileStmt (AssignStmt nm v) c = compileAssign nm v c"
| "compileStmt (ExprStmt e) c = compileExprStmt e c"
| "compileStmt (BlockStmt ss) c =
     (case compileStmts ss (c\<lparr>contextStack := contextStack c @ [new_context]\<rparr>) of
        Inl e \<Rightarrow> Inl e
      | Inr c1 \<Rightarrow> Inr (pop_context c1))"
| "compileStmt (IfStmt cond thenBranch elseBranch) c =
     (case compileExpr cond c of
        Inl e \<Rightarrow> Inl e
      | Inr c1 \<Rightarrow>
          (case emitJump OP_JMP_IFNOT c1 of
             (thenJump, c2) \<Rightarrow>
               (case compileStmt thenBranch c2 of
                  Inl e \<Rightarrow> Inl e
                | Inr c3 \<Rightarrow>
                    if elseBranch \<noteq> NullStmt
                    then (case emitJump OP_JMP c3 of
                            (elseJump, c4) \<Rightarrow>
                              (case patchJump thenJump c4 of
                                 Inl e \<Rightarrow> Inl e
                               | Inr c5 \<Rightarrow>
                                   (case compileStmt elseBranch c5 of
                                      Inl e \<Rightarrow> Inl e
                                    | Inr c6 \<Rightarrow> patchJump elseJump c6)))
                    else patchJump thenJump c3)))"
| "compileStmt (WhileStmt cond body) c =
     (let c0 = c\<lparr>loopStack := loopStack c @ [new_loop]\<rparr>;
          loopStart = code_size c0
      in case compileExpr cond c0 of
           Inl e \<Rightarrow> Inl e
         | Inr c1 \<Rightarrow>
             (case emitJump OP_JMP_IFNOT c1 of
                (exitJump, c2) \<Rightarrow>
                  (case compileStmt body c2 of
                     Inl e \<Rightarrow> Inl e
                   | Inr c3 \<Rightarrow> finish_while loopStart exitJump c3)))"
| "compileStmt (ForStmt init cond inc body) c =
     (case (if init \<noteq> NullStmt then compileStmt init c else Inr c) of
        Inl e \<Rightarrow> Inl e
      | Inr c1 \<Rightarrow>
          (let loop = new_loop;
               c2 = c1\<lparr>loopStack := loopStack c1 @ [loop]\<rparr>;
               loopStart = code_size c2
           in case for_condition cond loop c2 of
                Inl e \<Rightarrow> Inl e
              | Inr (loop', c3) \<Rightarrow>
                  (case compileStmt body c3 of
                     Inl e \<Rightarrow> Inl e
                   | Inr c4 \<Rightarrow> finish_for loopStart inc c4)))"
| "compileStmt (ReturnStmt v) c = compileReturn v c"
| "compileStmt BreakStmt c = compileBreak c"
| "compileStmt ContinueStmt c = compileContinue c"
| "compileStmt (FunctionStmt nm params body) c = compileFunction nm params body [] c"
| "compileStmt (ArrayDeclStmt ty nm sz init) c =
     (if ty \<noteq> ''int'' \<and> ty \<noteq> ''float'' \<and> ty \<noteq> ''str''
      then Inl (CompileError (''Unsupported array type: '' @ ty))
      else
        let elemType = (if ty = ''int'' then TYPE_ARRAY_INT
                        else if ty = ''float'' then TYPE_ARRAY_FLOAT else TYPE_ARRAY_STRING)
        in if sz \<noteq> NullExpr
           then (case compileExpr sz c of
                   Inl e \<Rightarrow> Inl e
                 | Inr c1 \<Rightarrow> declare_and_store nm (compileNewArray elemType 0 c1))
           else if init \<noteq> NullExpr
           then (case compileExpr init c of
                   Inl e \<Rightarrow> Inl e
                 | Inr c1 \<Rightarrow> declare_and_store nm c1)
           else declare_and_store nm (compileNewArray elemType 0 c))"
| "compileStmt NullStmt c = Inl (CompileError ''Unknown statement type'')"
| "compileStmts [] c = Inr c"
| "compileStmts (s # ss) c =
     (case compileStmt s c of
        Inl e \<Rightarrow> Inl e
      | Inr c1 \<Rightarrow> compileStmts ss c1)"
| "compileFunction nm params body sourceFileName c =
     (case compileStmts body (enter_function nm params sourceFileName c) of
        Inl e \<Rightarrow> Inl e
      | Inr c1 \<Rightarrow> Inr (leave_function nm params body sourceFileName (code_size c) c1))"

subsection \<open>\<open>Compiler::compile\<close>\<close>

text \<open>The first loop: every function that is not \<open>Main\<close>, in order.\<close>

fun compile_others :: "Stmt list \<Rightarrow> compile_step" where
  "compile_others [] c = Inr c"
| "compile_others (FunctionStmt nm params body # ss) c =
     (if nm \<noteq> ''Main''
      then (case compileFunction nm params body [] c of
              Inl e \<Rightarrow> Inl e
            | Inr c1 \<Rightarrow> compile_others ss c1)
      else compile_others ss c)"
| "compile_others (s # ss) c = compile_others ss c"

text \<open>The second loop: the first \<open>Main\<close>, then \<open>break\<close>; the flag is \<open>hasMain\<close>.\<close>

fun compile_main :: "Stmt list \<Rightarrow> Compiler \<Rightarrow> compile_error + (bool \<times> Compiler)" where
  "compile_main [] c = Inr (False, c)"
| "compile_main (FunctionStmt nm params body # ss) c =
     (if nm = ''Main''
      then (case compileFunction nm params body [] c of
              Inl e \<Rightarrow> Inl e
            | Inr c1 \<Rightarrow> Inr (True, c1))
      else compile_main ss c)"
| "compile_main (s # ss) c = compile_main ss c"

definition compile_from :: "Compiler \<Rightarrow> Stmt list \<Rightarrow> compile_error + BytecodeFile" where
  "compile_from c0 ast =
     (case compile_others ast c0 of
        Inl e \<Rightarrow> Inl e
      | Inr c1 \<Rightarrow>
          (case compile_main ast c1 of
             Inl e \<Rightarrow> Inl e
           | Inr (hasMain, c2) \<Rightarrow>
               if \<not> hasMain then Inl (CompileError ''Main function not found'')
               else if code (bytecode c2) = [] \<or> opcode (last (code (bytecode c2))) \<noteq> OP_HALT
               then Inr (bytecode (emit OP_HALT 0 c2))
               else Inr (bytecode c2)))"

text \<open>\<open>compile\<close> on a freshly constructed compiler, as the driver calls it.\<close>

definition compile :: "Stmt list \<Rightarrow> compile_error + BytecodeFile" where
  "compile ast = compile_from new_compiler ast"

section \<open>Parser (parser.h, parser.cpp)\<close>

text \<open>
  \<open>includedFiles\<close> is a \<open>std::map\<close>, kept newest binding first.  The token
  sequence a parser is constructed with ends in \<open>eof\<close>, so it is never empty.
\<close>

record Parser =
  p_tokens :: "Token list"
  pos :: nat
  p_errors :: "string list"
  includedFiles :: "(string \<times> string) list"

definition new_parser :: "Token list \<Rightarrow> Parser" where
  "new_parser t = \<lparr>p_tokens = t, pos = 0, p_errors = [], includedFiles = []\<rparr>"

text \<open>
  A parse function returns its node and the parser, or is left by an exception:
  \<open>Thrown\<close> is a \<open>std::runtime_error\<close> with its message (the parser keeps what it
  had recorded), \<open>StdException\<close> is the \<open>std::out_of_range\<close> or
  \<open>std::invalid_argument\<close> of \<open>std::stoll\<close>, which no handler of the parser
  catches.  \<open>OutOfFuel\<close> belongs to the model: recursion depth and loop iterations
  are bounded by a counter.
\<close>

datatype parse_abort =
    Thrown string Parser
  | StdException string Parser
  | OutOfFuel

type_synonym 'a parse_result = "parse_abort + ('a \<times> Parser)"

definition then_parse :: "'a parse_result \<Rightarrow> ('a \<Rightarrow> Parser \<Rightarrow> 'b parse_result) \<Rightarrow> 'b parse_result"
  where
  "then_parse r k = (case r of Inl e \<Rightarrow> Inl e | Inr (x, p) \<Rightarrow> k x p)"

definition isAtEnd_p :: "Parser \<Rightarrow> bool" where
  "isAtEnd_p p =
     (pos p \<ge> length (p_tokens p) \<or> tok_type (p_tokens p ! pos p) = EOF_TOKEN)"

definition peek_tok :: "Parser \<Rightarrow> Token" where
  "peek_tok p = (if isAtEnd_p p then last (p_tokens p) else p_tokens p ! pos p)"

definition advance_p :: "Parser \<Rightarrow> Parser" where
  "advance_p p = (if \<not> isAtEnd_p p then p\<lparr>pos := pos p + 1\<rparr> else p)"

text \<open>\<open>tokens[pos - 1]\<close>, the token \<open>advance\<close> returns.\<close>

definition previous :: "Parser \<Rightarrow> Token" where
  "previous p = p_tokens p ! (pos p - 1)"

definition check :: "TokenType \<Rightarrow> Parser \<Rightarrow> bool" where
  "check ty p = (\<not> isAtEnd_p p \<and> tok_type (p_tokens p ! pos p) = ty)"

text \<open>
  \<open>match(type)\<close> advances when \<open>check(type)\<close> holds; \<open>match(a) || match(b)\<close>
  advances when one of the checks holds.
\<close>

definition check_any :: "TokenType list \<Rightarrow> Parser \<Rightarrow> bool" where
  "check_any tys p = (\<exists>ty \<in> set tys. check ty p)"

definition parse_error :: "Token \<Rightarrow> string \<Rightarrow> Parser \<Rightarrow> Parser" where
  "parse_error tok message p =
     p\<lparr>p_errors := p_errors p @
          [''Parse error at line '' @ nat_to_string (tok_line tok) @ '', column ''
           @ nat_to_string (tok_column tok) @ '': '' @ message]\<rparr>"

definition consume :: "TokenType \<Rightarrow> string \<Rightarrow> Parser \<Rightarrow> Token parse_result" where
  "consume ty message p =
     (if check ty p then Inr (previous (advance_p p), advance_p p)
      else Inl (Thrown message (parse_error (peek_tok p) message p)))"

definition sync_point :: "TokenType \<Rightarrow> bool" where
  "sync_point ty = (ty = FN \<or> ty = IF \<or> ty = FOR \<or> ty = WHILE \<or> ty = RETURN \<or> ty = INCLUDE)"

function synchronize_loop :: "Parser \<Rightarrow> Parser" where
  "synchronize_loop p =
     (if \<not> isAtEnd_p p
      then (if tok_type (previous p) = SEMICOLON then p
            else if sync_point (tok_type (peek_tok p)) then p
            else synchronize_loop (advance_p p))
      else p)"
  by pat_completeness auto
termination
  by (relation "measure (\<lambda>p. length (p_tokens p) - pos p)")
     (auto simp: advance_p_def isAtEnd_p_def)

definition synchronize :: "Parser \<Rightarrow> Parser" where
  "synchronize p = synchronize_loop (advance_p p)"

definition isTypeToken :: "TokenType \<Rightarrow> bool" where
  "isTypeToken ty = (ty = INT_KW \<or> ty = FLOAT_TYPE \<or> ty = STR_KW \<or> ty = BOOL \<or> ty = BYTE)"

subsection \<open>Literals\<close>

fun decimal_value :: "string \<Rightarrow> int \<Rightarrow> int" where
  "decimal_value [] acc = acc"
| "decimal_value (ch # cs) acc = decimal_value cs (10 * acc + (of_char ch - 48))"

definition isspace :: "char \<Rightarrow> bool" where
  "isspace ch = (ch = CHR '' '' \<or> (9 :: nat) \<le> of_char ch \<and> (of_char ch :: nat) \<le> 13)"

text \<open>
  \<open>std::stoll(text)\<close> in base 10: leading white space and one sign are skipped, the
  longest run of digits is converted.  With no digit it throws
  \<open>std::invalid_argument\<close>, with a value outside \<open>int64_t\<close> it throws
  \<open>std::out_of_range\<close>; \<open>None\<close> is either exception.
\<close>

definition stoll :: "string \<Rightarrow> i64 option" where
  "stoll txt =
     (let s = dropWhile isspace txt;
          negative = (s \<noteq> [] \<and> hd s = CHR ''-'');
          s1 = (if s \<noteq> [] \<and> (hd s = CHR ''-'' \<or> hd s = CHR ''+'') then tl s else s);
          digits = takeWhile isdigit s1;
          v = decimal_value digits 0
      in if digits = [] then None
         else if negative
         then (if v > 9223372036854775808 then None else Some (word_of_int (- v)))
         else (if v > 9223372036854775807 then None else Some (word_of_int v)))"

subsection \<open>Expressions\<close>

text \<open>
  In this subsection \<open>sd\<close> is \<open>std::stod\<close>, \<open>None\<close> being its exception, and
  \<open>expression\<close> is \<open>parseExpression\<close> with less fuel.
\<close>

definition parsePrimary :: "(string \<Rightarrow> f64 option) \<Rightarrow> (Parser \<Rightarrow> Expr parse_result) \<Rightarrow> Parser \<Rightarrow> Expr parse_result"
  where
  "parsePrimary sd expression p =
     (let p1 = advance_p p in
      if check NUMBER p
      then (case stoll (tok_text (previous p1)) of
              None \<Rightarrow> Inl (StdException ''stoll'' p1)
            | Some v \<Rightarrow> Inr (LiteralExpr (AInt v), p1))
      else if check FLOAT p
      then (case sd (tok_text (previous p1)) of
              None \<Rightarrow> Inl (StdException ''stod'' p1)
            | Some v \<Rightarrow> Inr (LiteralExpr (AFloat v), p1))
      else if check STRING p then Inr (LiteralExpr (AStr (tok_text (previous p1))), p1)
      else if check TRUE p then Inr (LiteralExpr (ABool True), p1)
      else if check FALSE p then Inr (LiteralExpr (ABool False), p1)
      else if check NIL p then Inr (LiteralExpr ANil, p1)
      else if check IDENTIFIER p then Inr (VariableExpr (tok_text (previous p1)), p1)
      else if check LEFT_PAREN p
      then then_parse (expression p1) (\<lambda>expr p2.
           then_parse (consume RIGHT_PAREN ''Expected ')' after expression'' p2) (\<lambda>t p3.
             Inr (expr, p3)))
      else Inr (NullExpr, parse_error (peek_tok p) ''Expected expression'' p))"

definition realNatives :: "string list" where
  "realNatives = [''Console'', ''Math'', ''String'', ''Array'', ''File'', ''System'']"

definition make_call :: "Expr \<Rightarrow> Expr list \<Rightarrow> Expr" where
  "make_call callee args =
     (case callee of
        GetExpr obj nm \<Rightarrow>
          (case obj of
             VariableExpr v \<Rightarrow> CallExpr v nm args (v \<in> set realNatives)
           | _ \<Rightarrow> CallExpr [] nm args True)
      | VariableExpr nm \<Rightarrow> CallExpr [] nm args False
      | _ \<Rightarrow> CallExpr [] [] args False)"

text \<open>\<open>do { args.push_back(parseExpression()); } while (match(COMMA));\<close>\<close>

primrec call_args :: "nat \<Rightarrow> (Parser \<Rightarrow> Expr parse_result) \<Rightarrow> Expr list \<Rightarrow> Parser \<Rightarrow> Expr list parse_result"
  where
  "call_args 0 expression args p = Inl OutOfFuel"
| "call_args (Suc n) expression args p =
     then_parse (expression p) (\<lambda>a p1.
       if check COMMA p1 then call_args n expression (args @ [a]) (advance_p p1)
       else Inr (args @ [a], p1))"

definition finishCall :: "nat \<Rightarrow> (Parser \<Rightarrow> Expr parse_result) \<Rightarrow> Expr \<Rightarrow> Parser \<Rightarrow> Expr parse_result"
  where
  "finishCall n expression callee p =
     then_parse (if \<not> check RIGHT_PAREN p then call_args n expression [] p else Inr ([], p))
       (\<lambda>args p1.
     then_parse (consume RIGHT_PAREN ''Expected ')' after arguments'' p1) (\<lambda>t p2.
       Inr (make_call callee args, p2)))"

text \<open>The \<open>while (true)\<close> loop of \<open>parseCall\<close>.\<close>

primrec call_loop :: "nat \<Rightarrow> (Parser \<Rightarrow> Expr parse_result) \<Rightarrow> Expr \<Rightarrow> Parser \<Rightarrow> Expr parse_result"
  where
  "call_loop 0 expression expr p = Inl OutOfFuel"
| "call_loop (Suc n) expression expr p =
     (if check LEFT_PAREN p
      then then_parse (finishCall n expression expr (advance_p p)) (call_loop n expression)
      else if check DOT p
      then then_parse
             (consume IDENTIFIER (''Expected property name after '.'' @ [CHR 0x27])
                (advance_p p))
             (\<lambda>nm p1. call_loop n expression (GetExpr expr (tok_text nm)) p1)
      else Inr (expr, p))"

definition parseCall :: "nat \<Rightarrow> (string \<Rightarrow> f64 option) \<Rightarrow> (Parser \<Rightarrow> Expr parse_result) \<Rightarrow> Parser \<Rightarrow> Expr parse_result"
  where
  "parseCall n sd expression p =
     then_parse (parsePrimary sd expression p) (call_loop n expression)"

primrec parseUnary :: "nat \<Rightarrow> (string \<Rightarrow> f64 option) \<Rightarrow> (Parser \<Rightarrow> Expr parse_result) \<Rightarrow> Parser \<Rightarrow> Expr parse_result"
  where
  "parseUnary 0 sd expression p = Inl OutOfFuel"
| "parseUnary (Suc n) sd expression p =
     (if check_any [BANG, MINUS] p
      then then_parse (parseUnary n sd expression (advance_p p)) (\<lambda>right p1.
             Inr (LogicalExpr NullExpr (tok_text (previous (advance_p p))) right, p1))
      else parseCall n sd expression p)"

text \<open>
  The loop shared by the left-associative levels:
  \<open>while (match(..) || ..) { op = tokens[pos - 1]; right = sub(); expr = node(expr, .., right); }\<close>
\<close>

primrec binary_loop ::
  "nat \<Rightarrow> TokenType list \<Rightarrow> (Parser \<Rightarrow> Expr parse_result) \<Rightarrow> (Expr \<Rightarrow> string \<Rightarrow> Expr \<Rightarrow> Expr)
     \<Rightarrow> Expr \<Rightarrow> Parser \<Rightarrow> Expr parse_result"
  where
  "binary_loop 0 ops sub node expr p = Inl OutOfFuel"
| "binary_loop (Suc n) ops sub node expr p =
     (if check_any ops p
      then then_parse (sub (advance_p p)) (\<lambda>right p1.
             binary_loop n ops sub node
               (node expr (tok_text (previous (advance_p p))) right) p1)
      else Inr (expr, p))"

definition parseFactor :: "nat \<Rightarrow> (string \<Rightarrow> f64 option) \<Rightarrow> (Parser \<Rightarrow> Expr parse_result) \<Rightarrow> Parser \<Rightarrow> Expr parse_result"
  where
  "parseFactor n sd expression p =
     then_parse (parseUnary n sd expression p)
       (binary_loop n [STAR, SLASH, MOD] (parseUnary n sd expression) BinaryExpr)"

definition parseTerm :: "nat \<Rightarrow> (string \<Rightarrow> f64 option) \<Rightarrow> (Parser \<Rightarrow> Expr parse_result) \<Rightarrow> Parser \<Rightarrow> Expr parse_result"
  where
  "parseTerm n sd expression p =
     then_parse (parseFactor n sd expression p)
       (binary_loop n [PLUS, MINUS] (parseFactor n sd expression) BinaryExpr)"

definition parseComparison :: "nat \<Rightarrow> (string \<Rightarrow> f64 option) \<Rightarrow> (Parser \<Rightarrow> Expr parse_result) \<Rightarrow> Parser \<Rightarrow> Expr parse_result"
  where
  "parseComparison n sd expression p =
     then_parse (parseTerm n sd expression p)
       (binary_loop n [GREATER, GREATER_EQUAL, LESS, LESS_EQUAL] (parseTerm n sd expression)
          CompareExpr)"

definition parseEquality :: "nat \<Rightarrow> (string \<Rightarrow> f64 option) \<Rightarrow> (Parser \<Rightarrow> Expr parse_result) \<Rightarrow> Parser \<Rightarrow> Expr parse_result"
  where
  "parseEquality n sd expression p =
     then_parse (parseComparison n sd expression p)
       (binary_loop n [BANG_EQUAL, EQUAL_EQUAL] (parseComparison n sd expression) CompareExpr)"

definition parseLogicalAnd :: "nat \<Rightarrow> (string \<Rightarrow> f64 option) \<Rightarrow> (Parser \<Rightarrow> Expr parse_result) \<Rightarrow> Parser \<Rightarrow> Expr parse_result"
  where
  "parseLogicalAnd n sd expression p =
     then_parse (parseEquality n sd expression p)
       (binary_loop n [AND_KW] (parseEquality n sd expression)
          (\<lambda>l op r. LogicalExpr l ''&&'' r))"

definition parseLogicalOr :: "nat \<Rightarrow> (string \<Rightarrow> f64 option) \<Rightarrow> (Parser \<Rightarrow> Expr parse_result) \<Rightarrow> Parser \<Rightarrow> Expr parse_result"
  where
  "parseLogicalOr n sd expression p =
     then_parse (parseLogicalAnd n sd expression p)
       (binary_loop n [OR_KW] (parseLogicalAnd n sd expression)
          (\<lambda>l op r. LogicalExpr l ''||'' r))"

text \<open>
  \<open>parseAssignment\<close>: a variable followed by \<open>=\<close> becomes a \<open>BinaryExpr\<close> whose
  operator is \<open>"="\<close>; any other target only records an error.
\<close>

definition assignment_node :: "Expr \<Rightarrow> Expr \<Rightarrow> Parser \<Rightarrow> Expr parse_result" where
  "assignment_node expr v p =
     (case expr of
        VariableExpr nm \<Rightarrow> Inr (BinaryExpr (VariableExpr nm) ''='' v, p)
      | _ \<Rightarrow> Inr (expr, parse_error (peek_tok p) ''Invalid assignment target'' p))"

primrec parseAssignment :: "nat \<Rightarrow> (string \<Rightarrow> f64 option) \<Rightarrow> (Parser \<Rightarrow> Expr parse_result) \<Rightarrow> Parser \<Rightarrow> Expr parse_result"
  where
  "parseAssignment 0 sd expression p = Inl OutOfFuel"
| "parseAssignment (Suc n) sd expression p =
     then_parse (parseLogicalOr n sd expression p) (\<lambda>expr p1.
       if check EQUAL p1
       then then_parse (parseAssignment n sd expression (advance_p p1)) (assignment_node expr)
       else Inr (expr, p1))"

primrec parseExpression :: "nat \<Rightarrow> (string \<Rightarrow> f64 option) \<Rightarrow> Parser \<Rightarrow> Expr parse_result" where
  "parseExpression 0 sd p = Inl OutOfFuel"
| "parseExpression (Suc n) sd p = parseAssignment (Suc n) sd (parseExpression n sd) p"

subsection \<open>Statements\<close>

text \<open>
  In this subsection \<open>expression\<close> is \<open>parseExpression\<close>, \<open>statement\<close> is
  \<open>parseStatement\<close> and \<open>declaration\<close> is \<open>parseDeclaration\<close>, each with less fuel.
\<close>

text \<open>\<open>match(UNMUT) || match(MUT)\<close>: at most one modifier is consumed.\<close>

definition skip_modifier :: "Parser \<Rightarrow> Parser" where
  "skip_modifier p = (if check UNMUT p \<or> check MUT p then advance_p p else p)"

definition parseVarDeclaration :: "(Parser \<Rightarrow> Expr parse_result) \<Rightarrow> Parser \<Rightarrow> Stmt parse_result"
  where
  "parseVarDeclaration expression p =
     (let isMutable = \<not> check UNMUT p;
          p1 = advance_p (skip_modifier p);
          typeToken = previous p1
      in if \<not> isTypeToken (tok_type typeToken)
         then Inr (NullStmt, parse_error typeToken ''Expected type name'' p1)
         else
           then_parse (consume IDENTIFIER ''Expected variable name'' p1) (\<lambda>nm p2.
           then_parse (if check EQUAL p2 then expression (advance_p p2) else Inr (NullExpr, p2))
             (\<lambda>initializer p3.
           then_parse (consume SEMICOLON ''Expected ';' after variable declaration'' p3)
             (\<lambda>t p4.
             Inr (VarDeclStmt isMutable (tok_text typeToken) (tok_text nm) initializer, p4)))))"

definition parseArrayDeclaration :: "(Parser \<Rightarrow> Expr parse_result) \<Rightarrow> Parser \<Rightarrow> Stmt parse_result"
  where
  "parseArrayDeclaration expression p =
     (let p1 = advance_p p; typeToken = previous p1 in
      then_parse (consume IDENTIFIER ''Expected array name'' p1) (\<lambda>nm p2.
      then_parse (consume LEFT_BRACKET ''Expected '[' after array name'' p2) (\<lambda>t p3.
      then_parse (if \<not> check RIGHT_BRACKET p3 then expression p3 else Inr (NullExpr, p3))
        (\<lambda>sz p4.
      then_parse (consume RIGHT_BRACKET ''Expected ']' after array size'' p4) (\<lambda>t p5.
      then_parse (if check EQUAL p5 then expression (advance_p p5) else Inr (NullExpr, p5))
        (\<lambda>initializer p6.
      then_parse (consume SEMICOLON ''Expected ';' after array declaration'' p6) (\<lambda>t p7.
        Inr (ArrayDeclStmt (tok_text typeToken) (tok_text nm) sz initializer, p7))))))))"

text \<open>
  The loop of \<open>parseBlock\<close>; a null statement (an include, or a declaration that
  ended in an error) is not kept.
\<close>

primrec block_loop ::
  "nat \<Rightarrow> (Parser \<Rightarrow> Stmt parse_result) \<Rightarrow> Stmt list \<Rightarrow> Parser \<Rightarrow> (Stmt list) parse_result"
  where
  "block_loop 0 declaration stmts p = Inl OutOfFuel"
| "block_loop (Suc n) declaration stmts p =
     (if \<not> check RIGHT_BRACE p \<and> \<not> isAtEnd_p p
      then then_parse (declaration p) (\<lambda>stmt p1.
             block_loop n declaration (if stmt = NullStmt then stmts else stmts @ [stmt]) p1)
      else Inr (stmts, p))"

definition parseBlock :: "nat \<Rightarrow> (Parser \<Rightarrow> Stmt parse_result) \<Rightarrow> Parser \<Rightarrow> Stmt parse_result"
  where
  "parseBlock n declaration p =
     then_parse (block_loop n declaration [] p) (\<lambda>stmts p1.
     then_parse (consume RIGHT_BRACE ''Expected '}' after block'' p1) (\<lambda>t p2.
       Inr (BlockStmt stmts, p2)))"

text \<open>\<open>parseIfStatement\<close> calls \<open>parseBlock\<close> right after the \<open>)\<close>.\<close>

primrec parseIfStatement ::
  "nat \<Rightarrow> (Parser \<Rightarrow> Expr parse_result) \<Rightarrow> (Parser \<Rightarrow> Stmt parse_result) \<Rightarrow> Parser
     \<Rightarrow> Stmt parse_result"
  where
  "parseIfStatement 0 expression declaration p = Inl OutOfFuel"
| "parseIfStatement (Suc n) expression declaration p =
     then_parse (consume LEFT_PAREN (''Expected '(' after 'if'' @ [CHR 0x27]) p) (\<lambda>t p1.
     then_parse (expression p1) (\<lambda>condition p2.
     then_parse (consume RIGHT_PAREN ''Expected ')' after condition'' p2) (\<lambda>t p3.
     then_parse (parseBlock n declaration p3) (\<lambda>thenBranch p4.
     then_parse
       (if check ELSE p4
        then (if check IF (advance_p p4)
              then parseIfStatement n expression declaration (advance_p (advance_p p4))
              else parseBlock n declaration (advance_p p4))
        else Inr (NullStmt, p4))
       (\<lambda>elseBranch p5. Inr (IfStmt condition thenBranch elseBranch, p5))))))"

definition parseWhileStatement ::
  "(Parser \<Rightarrow> Expr parse_result) \<Rightarrow> (Parser \<Rightarrow> Stmt parse_result) \<Rightarrow> Parser \<Rightarrow> Stmt parse_result"
  where
  "parseWhileStatement expression statement p =
     then_parse (consume LEFT_PAREN (''Expected '(' after 'while'' @ [CHR 0x27]) p) (\<lambda>t p1.
     then_parse (expression p1) (\<lambda>condition p2.
     then_parse (consume RIGHT_PAREN ''Expected ')' after condition'' p2) (\<lambda>t p3.
     then_parse (statement p3) (\<lambda>body p4.
       Inr (WhileStmt condition body, p4)))))"

definition for_initializer :: "(Parser \<Rightarrow> Expr parse_result) \<Rightarrow> Parser \<Rightarrow> Stmt parse_result"
  where
  "for_initializer expression p =
     (if check SEMICOLON p then Inr (NullStmt, advance_p p)
      else if isTypeToken (tok_type (peek_tok (skip_modifier p)))
      then parseVarDeclaration expression p
      else then_parse (expression p) (\<lambda>expr p1.
           then_parse (consume SEMICOLON ''Expected ';' after for initializer'' p1) (\<lambda>t p2.
             Inr (ExprStmt expr, p2))))"

definition parseForStatement ::
  "(Parser \<Rightarrow> Expr parse_result) \<Rightarrow> (Parser \<Rightarrow> Stmt parse_result) \<Rightarrow> Parser \<Rightarrow> Stmt parse_result"
  where
  "parseForStatement expression statement p =
     then_parse (consume LEFT_PAREN (''Expected '(' after 'for'' @ [CHR 0x27]) p) (\<lambda>t p1.
     then_parse (for_initializer expression p1) (\<lambda>initializer p2.
     then_parse (if \<not> check SEMICOLON p2 then expression p2 else Inr (NullExpr, p2))
       (\<lambda>condition p3.
     then_parse (consume SEMICOLON ''Expected ';' after for condition'' p3) (\<lambda>t p4.
     then_parse (if \<not> check RIGHT_PAREN p4 then expression p4 else Inr (NullExpr, p4))
       (\<lambda>increment p5.
     then_parse (consume RIGHT_PAREN ''Expected ')' after for clauses'' p5) (\<lambda>t p6.
     then_parse (statement p6) (\<lambda>body p7.
       Inr (ForStmt initializer condition increment body, p7))))))))"

definition parseReturnStatement :: "(Parser \<Rightarrow> Expr parse_result) \<Rightarrow> Parser \<Rightarrow> Stmt parse_result"
  where
  "parseReturnStatement expression p =
     then_parse (if \<not> check SEMICOLON p then expression p else Inr (NullExpr, p)) (\<lambda>v p1.
     then_parse (consume SEMICOLON ''Expected ';' after return'' p1) (\<lambda>t p2.
       Inr (ReturnStmt v, p2)))"

definition parseBreakStatement :: "Parser \<Rightarrow> Stmt parse_result" where
  "parseBreakStatement p =
     then_parse (consume SEMICOLON ''Expected ';' after break'' p) (\<lambda>t p1. Inr (BreakStmt, p1))"

definition parseContinueStatement :: "Parser \<Rightarrow> Stmt parse_result" where
  "parseContinueStatement p =
     then_parse (consume SEMICOLON ''Expected ';' after continue'' p)
       (\<lambda>t p1. Inr (ContinueStmt, p1))"

text \<open>
  \<open>parseStatement\<close>.  When a type follows the optional modifier the position is
  reset, so \<open>parseVarDeclaration\<close> reads the modifier itself; otherwise the
  modifier stays consumed.
\<close>

primrec parseStatement ::
  "nat \<Rightarrow> (string \<Rightarrow> f64 option) \<Rightarrow> (Parser \<Rightarrow> Stmt parse_result) \<Rightarrow> Parser \<Rightarrow> Stmt parse_result"
  where
  "parseStatement 0 sd declaration p = Inl OutOfFuel"
| "parseStatement (Suc n) sd declaration p =
     (if check IF p then parseIfStatement n (parseExpression n sd) declaration (advance_p p)
      else if check WHILE p
      then parseWhileStatement (parseExpression n sd) (parseStatement n sd declaration)
             (advance_p p)
      else if check FOR p
      then parseForStatement (parseExpression n sd) (parseStatement n sd declaration)
             (advance_p p)
      else if check RETURN p then parseReturnStatement (parseExpression n sd) (advance_p p)
      else if check BREAK p then parseBreakStatement (advance_p p)
      else if check CONTINUE p then parseContinueStatement (advance_p p)
      else if check LEFT_BRACE p then parseBlock n declaration (advance_p p)
      else if isTypeToken (tok_type (peek_tok (skip_modifier p)))
      then parseVarDeclaration (parseExpression n sd) p
      else if check IDENTIFIER (skip_modifier p)
              \<and> pos (skip_modifier p) + 1 < length (p_tokens p)
              \<and> tok_type (p_tokens p ! (pos (skip_modifier p) + 1)) = LEFT_BRACKET
      then parseArrayDeclaration (parseExpression n sd) (skip_modifier p)
      else then_parse (parseExpression n sd (skip_modifier p)) (\<lambda>expr p1.
           then_parse (consume SEMICOLON ''Expected ';' after expression'' p1) (\<lambda>t p2.
             Inr (ExprStmt expr, p2))))"

subsection \<open>Declarations\<close>

text \<open>
  \<open>extractBaseName\<close>: the part after the last \<open>/\<close> or \<open>\\\<close>, cut at its last dot.
\<close>

definition is_slash :: "char \<Rightarrow> bool" where
  "is_slash ch = (ch = CHR ''/'' \<or> ch = CHR 0x5C)"

definition extractBaseName :: "string \<Rightarrow> string" where
  "extractBaseName path =
     (let filename = rev (takeWhile (\<lambda>ch. \<not> is_slash ch) (rev path))
      in if CHR ''.'' \<in> set filename
         then rev (tl (dropWhile (\<lambda>ch. ch \<noteq> CHR ''.'') (rev filename)))
         else filename)"

definition parseInclude :: "Parser \<Rightarrow> Stmt parse_result" where
  "parseInclude p =
     then_parse (consume IDENTIFIER (''Expected library name after 'include'' @ [CHR 0x27]) p)
       (\<lambda>nameToken p1.
     then_parse (consume SEMICOLON ''Expected ';' after include'' p1) (\<lambda>t p2.
       Inr (NullStmt,
            p2\<lparr>includedFiles :=
                  (extractBaseName (tok_text nameToken), tok_text nameToken)
                  # includedFiles p2\<rparr>)))"

text \<open>
  The \<open>do { .. } while (match(COMMA));\<close> loop of \<open>parseFunction\<close> over the
  parameters.
\<close>

primrec param_loop ::
  "nat \<Rightarrow> (string \<times> string) list \<Rightarrow> Parser \<Rightarrow> ((string \<times> string) list) parse_result"
  where
  "param_loop 0 params p = Inl OutOfFuel"
| "param_loop (Suc n) params p =
     (if \<not> isTypeToken (tok_type (peek_tok p))
      then Inl (Thrown ''Expected parameter type''
                  (parse_error (peek_tok p)
                     (''Expected parameter type (int, float, str, bool, byte), got: ''
                      @ [CHR 0x27] @ tok_text (peek_tok p) @ [CHR 0x27]) p))
      else then_parse (consume IDENTIFIER ''Expected parameter name'' (advance_p p))
             (\<lambda>paramName p1.
               if check COMMA p1
               then param_loop n (params @ [(tok_text (peek_tok p), tok_text paramName)])
                      (advance_p p1)
               else Inr (params @ [(tok_text (peek_tok p), tok_text paramName)], p1)))"

definition block_statements :: "Stmt \<Rightarrow> Stmt list" where
  "block_statements s = (case s of BlockStmt stmts \<Rightarrow> stmts | _ \<Rightarrow> [])"

definition parseFunction :: "nat \<Rightarrow> (Parser \<Rightarrow> Stmt parse_result) \<Rightarrow> Parser \<Rightarrow> Stmt parse_result"
  where
  "parseFunction n declaration p =
     then_parse (consume IDENTIFIER ''Expected function name'' p) (\<lambda>nm p1.
     then_parse (consume LEFT_PAREN ''Expected '(' after function name'' p1) (\<lambda>t p2.
     then_parse (if \<not> check RIGHT_PAREN p2 then param_loop n [] p2 else Inr ([], p2))
       (\<lambda>parameters p3.
     then_parse (consume RIGHT_PAREN ''Expected ')' after parameters'' p3) (\<lambda>t p4.
     then_parse (consume LEFT_BRACE ''Expected '{' before function body'' p4) (\<lambda>t p5.
     then_parse (parseBlock n declaration p5) (\<lambda>body p6.
       Inr (FunctionStmt (tok_text nm) parameters (block_statements body), p6)))))))"

text \<open>
  \<open>catch (const std::runtime_error &e) { errors.push_back(e.what()); synchronize();
  return nullptr; }\<close>
\<close>

definition catch_runtime_error :: "Stmt parse_result \<Rightarrow> Stmt parse_result" where
  "catch_runtime_error r =
     (case r of
        Inl (Thrown message p) \<Rightarrow>
          Inr (NullStmt, synchronize (p\<lparr>p_errors := p_errors p @ [message]\<rparr>))
      | _ \<Rightarrow> r)"

primrec parseDeclaration :: "nat \<Rightarrow> (string \<Rightarrow> f64 option) \<Rightarrow> Parser \<Rightarrow> Stmt parse_result" where
  "parseDeclaration 0 sd p = Inl OutOfFuel"
| "parseDeclaration (Suc n) sd p =
     catch_runtime_error
       (if check INCLUDE p then parseInclude (advance_p p)
        else if check FN p then parseFunction n (parseDeclaration n sd) (advance_p p)
        else parseStatement n sd (parseDeclaration n sd) p)"

text \<open>The loop of \<open>Parser::parse\<close>, with its own handler around each declaration.\<close>

primrec parse_loop ::
  "nat \<Rightarrow> (string \<Rightarrow> f64 option) \<Rightarrow> Stmt list \<Rightarrow> Parser \<Rightarrow> (Stmt list) parse_result" where
  "parse_loop 0 sd statements p = Inl OutOfFuel"
| "parse_loop (Suc n) sd statements p =
     (if \<not> isAtEnd_p p
      then then_parse (catch_runtime_error (parseDeclaration n sd p)) (\<lambda>stmt p1.
             parse_loop n sd (if stmt = NullStmt then statements else statements @ [stmt]) p1)
      else Inr (statements, p))"

text \<open>
  \<open>Parser(tokens).parse()\<close>, with \<open>fuel\<close> bounding every loop and the depth of
  recursion.
\<close>

definition parse :: "nat \<Rightarrow> (string \<Rightarrow> f64 option) \<Rightarrow> Token list \<Rightarrow> (Stmt list) parse_result" where
  "parse fuel sd t = parse_loop fuel sd [] (new_parser t)"


subsection \<open>A program with an assignment\<close>

text \<open>
  The tokens of \<open>fn Main() { int x = 1; x = 2; }\<close> and the tree the grammar of the
  language gives it when the assignment is the expression \<open>x = 2\<close>.
\<close>

definition assign_tokens :: "Token list" where
  "assign_tokens =
     [\<lparr>tok_type = FN, tok_text = ''fn'', tok_line = 1, tok_column = 3\<rparr>,
      \<lparr>tok_type = IDENTIFIER, tok_text = ''Main'', tok_line = 1, tok_column = 8\<rparr>,
      \<lparr>tok_type = LEFT_PAREN, tok_text = ''('', tok_line = 1, tok_column = 9\<rparr>,
      \<lparr>tok_type = RIGHT_PAREN, tok_text = '')'', tok_line = 1, tok_column = 10\<rparr>,
      \<lparr>tok_type = LEFT_BRACE, tok_text = ''{'', tok_line = 1, tok_column = 12\<rparr>,
      \<lparr>tok_type = INT_KW, tok_text = ''int'', tok_line = 1, tok_column = 16\<rparr>,
      \<lparr>tok_type = IDENTIFIER, tok_text = ''x'', tok_line = 1, tok_column = 18\<rparr>,
      \<lparr>tok_type = EQUAL, tok_text = ''='', tok_line = 1, tok_column = 20\<rparr>,
      \<lparr>tok_type = NUMBER, tok_text = ''1'', tok_line = 1, tok_column = 22\<rparr>,
      \<lparr>tok_type = SEMICOLON, tok_text = '';'', tok_line = 1, tok_column = 23\<rparr>,
      \<lparr>tok_type = IDENTIFIER, tok_text = ''x'', tok_line = 1, tok_column = 25\<rparr>,
      \<lparr>tok_type = EQUAL, tok_text = ''='', tok_line = 1, tok_column = 27\<rparr>,
      \<lparr>tok_type = NUMBER, tok_text = ''2'', tok_line = 1, tok_column = 29\<rparr>,
      \<lparr>tok_type = SEMICOLON, tok_text = '';'', tok_line = 1, tok_column = 30\<rparr>,
      \<lparr>tok_type = RIGHT_BRACE, tok_text = ''}'', tok_line = 1, tok_column = 32\<rparr>,
      \<lparr>tok_type = EOF_TOKEN, tok_text = [], tok_line = 1, tok_column = 32\<rparr>]"

definition assign_ast :: "Stmt list" where
  "assign_ast =
     [FunctionStmt ''Main'' []
        [VarDeclStmt True ''int'' ''x'' (LiteralExpr (AInt 1)),
         ExprStmt (BinaryExpr (VariableExpr ''x'') ''='' (LiteralExpr (AInt 2)))]]"

section \<open>Properties of the store opcodes\<close>

lemma sint_small: "n < 2 ^ 31 \<Longrightarrow> sint (word_of_nat n :: u32) = int n"
  by (simp add: sint_uint signed_take_bit_int_eq_self take_bit_nat_eq_self unsigned_of_nat
      take_bit_int_eq_self)

lemma peek_value: "peek vm = Inr v \<Longrightarrow> stack vm \<noteq> [] \<and> v = last (stack vm)"
proof -
  assume p: "peek vm = Inr v"
  have ne: "stack vm \<noteq> []"
  proof
    assume "stack vm = []"
    then have "peek vm = runtimeError vm ''Stack peek out of bounds''"
      by (simp add: peek_def)
    with p show False by (simp add: runtimeError_def)
  qed
  from p have "v = stack vm ! (length (stack vm) - 1)"
    by (simp add: peek_def runtimeError_def split: if_splits)
  with ne show ?thesis by (simp add: last_conv_nth)
qed

lemma peek_small:
  "stack vm \<noteq> [] \<Longrightarrow> length (stack vm) < 2 ^ 31 \<Longrightarrow> peek vm = Inr (last (stack vm))"
  by (simp add: peek_def sint_small last_conv_nth)

lemma opStore_frame:
  assumes "opStore i vm = Inr vm'"
  shows "stack vm' = stack vm \<and> unat i < length (locals_v vm')
         \<and> locals_v vm' ! unat i = last (stack vm)"
proof -
  from assms obtain v where p: "peek vm = Inr v"
    and r: "vm' = vm\<lparr>locals_v := (locals_v vm)[unat i := v]\<rparr>"
    and l: "unat i < length (locals_v vm)"
    by (auto simp: opStore_def runtimeError_def split: if_splits sum.splits)
  from peek_value [OF p] have "v = last (stack vm)" by simp
  with r l show ?thesis by simp
qed

lemma opStoreGlobal_frame:
  assumes "opStoreGlobal i vm = Inr vm'"
  shows "stack vm' = stack vm \<and> unat i < length (globals vm')
         \<and> globals vm' ! unat i = last (stack vm)"
proof -
  define g where "g = (if unat i \<ge> length (globals vm)
                       then resize (unat (i + 1)) VNil (globals vm) else globals vm)"
  from assms obtain v where p: "peek vm = Inr v"
    and r: "vm' = vm\<lparr>globals := g[unat i := v]\<rparr>"
    and l: "unat i < length g"
    by (auto simp: opStoreGlobal_def Let_def g_def split: if_splits sum.splits)
  from peek_value [OF p] have "v = last (stack vm)" by simp
  with r l show ?thesis by simp
qed

text \<open>
  C10.  With a non-empty operand stack, \<open>OP_STORE\<close> and \<open>OP_STORE_GLOBAL\<close> copy the top
  of the stack into the target slot without popping: whenever either opcode
  completes, the operand stack is exactly the stack before, the stored value still
  on top, and the target slot holds that value.  Both complete whenever the target
  slot exists and the stack holds fewer than \<open>2^31\<close> values (the size that \<open>peek\<close>
  still reads as positive).
\<close>

theorem store_keeps_stack:
  assumes "stack vm \<noteq> []"
  shows "(\<forall>vm'. opStore i vm = Inr vm' \<longrightarrow>
            stack vm' = stack vm \<and> last (stack vm') = last (stack vm)
            \<and> unat i < length (locals_v vm') \<and> locals_v vm' ! unat i = last (stack vm))
       \<and> (\<forall>vm'. opStoreGlobal i vm = Inr vm' \<longrightarrow>
            stack vm' = stack vm \<and> last (stack vm') = last (stack vm)
            \<and> unat i < length (globals vm') \<and> globals vm' ! unat i = last (stack vm))
       \<and> (unat i < length (locals_v vm) \<and> length (stack vm) < 2 ^ 31 \<longrightarrow>
            (\<exists>vm'. opStore i vm = Inr vm'))
       \<and> (unat i < length (globals vm) \<and> length (stack vm) < 2 ^ 31 \<longrightarrow>
            (\<exists>vm'. opStoreGlobal i vm = Inr vm'))"
proof -
  have a: "\<forall>vm'. opStore i vm = Inr vm' \<longrightarrow>
            stack vm' = stack vm \<and> last (stack vm') = last (stack vm)
            \<and> unat i < length (locals_v vm') \<and> locals_v vm' ! unat i = last (stack vm)"
    using opStore_frame [of i vm] by auto
  have b: "\<forall>vm'. opStoreGlobal i vm = Inr vm' \<longrightarrow>
            stack vm' = stack vm \<and> last (stack vm') = last (stack vm)
            \<and> unat i < length (globals vm') \<and> globals vm' ! unat i = last (stack vm)"
    using opStoreGlobal_frame [of i vm] by auto
  have c: "unat i < length (locals_v vm) \<and> length (stack vm) < 2 ^ 31 \<longrightarrow>
            (\<exists>vm'. opStore i vm = Inr vm')"
    using assms by (simp add: opStore_def peek_small)
  have d: "unat i < length (globals vm) \<and> length (stack vm) < 2 ^ 31 \<longrightarrow>
            (\<exists>vm'. opStoreGlobal i vm = Inr vm')"
    using assms by (simp add: opStoreGlobal_def Let_def peek_small)
  from a b c d show ?thesis by blast
qed

theorem store_keeps_stack_witness:
  "stack ((vm_init empty_image)\<lparr>stack := [VInt 5], globals := [VNil], locals_v := [VNil]\<rparr>)
     \<noteq> []
   \<and> unat (0 :: u32)
       < length (locals_v ((vm_init empty_image)\<lparr>stack := [VInt 5], globals := [VNil],
                              locals_v := [VNil]\<rparr>))
   \<and> unat (0 :: u32)
       < length (globals ((vm_init empty_image)\<lparr>stack := [VInt 5], globals := [VNil],
                              locals_v := [VNil]\<rparr>))
   \<and> length (stack ((vm_init empty_image)\<lparr>stack := [VInt 5], globals := [VNil],
                       locals_v := [VNil]\<rparr>)) < 2 ^ 31
   \<and> opStore 0 ((vm_init empty_image)\<lparr>stack := [VInt 5], globals := [VNil],
                   locals_v := [VNil]\<rparr>)
       = Inr ((vm_init empty_image)\<lparr>stack := [VInt 5], globals := [VNil],
                locals_v := [VInt 5]\<rparr>)
   \<and> opStoreGlobal 0 ((vm_init empty_image)\<lparr>stack := [VInt 5], globals := [VNil],
                         locals_v := [VNil]\<rparr>)
       = Inr ((vm_init empty_image)\<lparr>stack := [VInt 5], globals := [VInt 5],
                locals_v := [VNil]\<rparr>)"
proof -
  have h: "stack ((vm_init empty_image)\<lparr>stack := [VInt 5], globals := [VNil],
                    locals_v := [VNil]\<rparr>) \<noteq> []"
    by simp
  have e1: "opStore 0 ((vm_init empty_image)\<lparr>stack := [VInt 5], globals := [VNil],
                   locals_v := [VNil]\<rparr>)
       = Inr ((vm_init empty_image)\<lparr>stack := [VInt 5], globals := [VNil],
                locals_v := [VInt 5]\<rparr>)"
    by code_simp
  have e2: "opStoreGlobal 0 ((vm_init empty_image)\<lparr>stack := [VInt 5], globals := [VNil],
                         locals_v := [VNil]\<rparr>)
       = Inr ((vm_init empty_image)\<lparr>stack := [VInt 5], globals := [VInt 5],
                locals_v := [VNil]\<rparr>)"
    by code_simp
  show ?thesis
    using store_keeps_stack [OF h, of 0] h e1 e2 by simp
qed

lemma Rep_other_tag_neq:
  "Rep_other_tag t \<noteq> 0" "Rep_other_tag t \<noteq> 1" "Rep_other_tag t \<noteq> 2"
  "Rep_other_tag t \<noteq> 3" "Rep_other_tag t \<noteq> 4" "Rep_other_tag t \<noteq> 5"
  "Rep_other_tag t \<noteq> 6" "Rep_other_tag t \<noteq> 7"
  using Rep_other_tag [of t] by auto

lemma is_int_iff: "is_int v \<longleftrightarrow> (\<exists>x. v = VInt x)"
  by (cases v) (simp_all add: is_int_def type_defs Rep_other_tag_neq)

lemma is_float_iff: "is_float v \<longleftrightarrow> (\<exists>x. v = VFloat x)"
  by (cases v) (simp_all add: is_float_def type_defs Rep_other_tag_neq)

lemma is_string_iff: "is_string v \<longleftrightarrow> (\<exists>x. v = VString x)"
  by (cases v) (simp_all add: is_string_def type_defs Rep_other_tag_neq)

lemma pop2_two: "stack vm = st @ [a, b] \<Longrightarrow> pop2 vm = Inr ((a, b), vm\<lparr>stack := st\<rparr>)"
  by (simp add: pop2_def pop_def and_then_vm_def butlast_append)

lemma sub_type_error:
  "\<not> same_numeric a b \<Longrightarrow>
   sub_values fp a b vm = Inl (RuntimeError (pc vm) ''Invalid types for subtraction'')"
  by (simp add: sub_values_def same_numeric_def is_int_def is_float_def runtimeError_def)

lemma mul_type_error:
  "\<not> same_numeric a b \<Longrightarrow>
   mul_values fp a b vm = Inl (RuntimeError (pc vm) ''Invalid types for multiplication'')"
  by (simp add: mul_values_def same_numeric_def is_int_def is_float_def runtimeError_def)

lemma div_type_error:
  "\<not> same_numeric a b \<Longrightarrow>
   div_values fp a b vm = Inl (RuntimeError (pc vm) ''Invalid types for division'')"
  by (auto simp: div_values_def same_numeric_def is_int_def is_float_def runtimeError_def)

lemma mod_type_error:
  "\<not> (is_int a \<and> is_int b) \<Longrightarrow>
   mod_values a b vm = Inl (RuntimeError (pc vm) ''Invalid types for modulo'')"
  by (auto simp: mod_values_def is_int_def runtimeError_def)

lemma mod_zero_error:
  "zero_divisor b \<Longrightarrow> \<exists>m. mod_values a b vm = Inl (RuntimeError (pc vm) m)"
proof (cases "type_of a = TYPE_INT \<and> type_of b = TYPE_INT")
  case True
  assume "zero_divisor b"
  with True have "intVal b = 0"
    by (simp add: zero_divisor_def TYPE_INT_def TYPE_FLOAT_def)
  with True show ?thesis by (simp add: mod_values_def runtimeError_def)
next
  case False
  then show ?thesis by (auto simp: mod_values_def runtimeError_def)
qed

lemma add_no_type_error:
  "\<not> (numeric a \<and> numeric b) \<Longrightarrow> \<not> is_string a \<Longrightarrow> \<not> is_string b \<Longrightarrow>
   add_values fp a b vm = push VNil vm"
proof -
  assume n: "\<not> (numeric a \<and> numeric b)" and sa: "\<not> is_string a" and sb: "\<not> is_string b"
  have c1: "\<not> (type_of a = TYPE_INT \<and> type_of b = TYPE_INT)"
    using n unfolding numeric_def is_int_def is_float_def by blast
  have c2: "\<not> (type_of a = TYPE_FLOAT \<and> type_of b = TYPE_FLOAT)"
    using n unfolding numeric_def is_int_def is_float_def by blast
  have c3: "\<not> (type_of a = TYPE_INT \<and> type_of b = TYPE_FLOAT)"
    using n unfolding numeric_def is_int_def is_float_def by blast
  have c4: "\<not> (type_of a = TYPE_FLOAT \<and> type_of b = TYPE_INT)"
    using n unfolding numeric_def is_int_def is_float_def by blast
  have c5: "\<not> (type_of a = TYPE_STRING \<or> type_of b = TYPE_STRING)"
    using sa sb unfolding is_string_def by blast
  show ?thesis
    unfolding add_values_def by (simp only: c1 c2 c3 c4 c5 if_False)
qed

text \<open>
  The sibling handlers.  With two operands \<open>a\<close> (below) and \<open>b\<close> (top) on the stack,
  \<open>SUB\<close>, \<open>MUL\<close> and \<open>DIV\<close> raise a runtime error unless both operands are ints or both
  are floats, \<open>MOD\<close> raises unless both are ints, and \<open>DIV\<close> and \<open>MOD\<close> raise on a zero
  divisor.
\<close>

lemma sibling_type_errors:
  assumes "stack vm = st @ [a, b]"
  shows "(\<not> same_numeric a b \<longrightarrow>
            opSub fp vm = Inl (RuntimeError (pc vm) ''Invalid types for subtraction'')
          \<and> opMul fp vm = Inl (RuntimeError (pc vm) ''Invalid types for multiplication'')
          \<and> (\<exists>m. opDiv fp vm = Inl (RuntimeError (pc vm) m)))
       \<and> (\<not> (is_int a \<and> is_int b) \<longrightarrow>
            opMod vm = Inl (RuntimeError (pc vm) ''Invalid types for modulo''))
       \<and> (zero_divisor b \<longrightarrow>
            opDiv fp vm = Inl (RuntimeError (pc vm) ''Division by zero'')
          \<and> (\<exists>m. opMod vm = Inl (RuntimeError (pc vm) m)))"
proof -
  note p = pop2_two [OF assms]
  have s: "\<not> same_numeric a b \<longrightarrow>
            opSub fp vm = Inl (RuntimeError (pc vm) ''Invalid types for subtraction'')
          \<and> opMul fp vm = Inl (RuntimeError (pc vm) ''Invalid types for multiplication'')
          \<and> (\<exists>m. opDiv fp vm = Inl (RuntimeError (pc vm) m))"
    by (simp add: opSub_def opMul_def opDiv_def p sub_type_error mul_type_error
        div_type_error runtimeError_def and_then_vm_def)
  have m: "\<not> (is_int a \<and> is_int b) \<longrightarrow>
            opMod vm = Inl (RuntimeError (pc vm) ''Invalid types for modulo'')"
    using mod_type_error [of a b "vm\<lparr>stack := st\<rparr>"]
    by (simp add: opMod_def p and_then_vm_def)
  have z: "zero_divisor b \<longrightarrow>
            opDiv fp vm = Inl (RuntimeError (pc vm) ''Division by zero'')
          \<and> (\<exists>m. opMod vm = Inl (RuntimeError (pc vm) m))"
    using mod_zero_error [of b a "vm\<lparr>stack := st\<rparr>"]
    by (simp add: opDiv_def opMod_def p runtimeError_def and_then_vm_def)
  from s m z show ?thesis by blast
qed

lemma siblings_raise_on_bool_int:
  "opSub no_floats ((vm_init empty_image)\<lparr>stack := [VBool True, VInt 1]\<rparr>)
     = Inl (RuntimeError 0 ''Invalid types for subtraction'')
   \<and> opMul no_floats ((vm_init empty_image)\<lparr>stack := [VBool True, VInt 1]\<rparr>)
     = Inl (RuntimeError 0 ''Invalid types for multiplication'')
   \<and> opDiv no_floats ((vm_init empty_image)\<lparr>stack := [VBool True, VInt 1]\<rparr>)
     = Inl (RuntimeError 0 ''Invalid types for division'')
   \<and> opMod ((vm_init empty_image)\<lparr>stack := [VBool True, VInt 1]\<rparr>)
     = Inl (RuntimeError 0 ''Invalid types for modulo'')"
  by code_simp

text \<open>
  C8 at a failing input.  The operands \<open>true\<close> and \<open>1\<close> are neither both numeric nor
  is one of them a string, so they are outside the types \<open>ADD\<close> accepts.  \<open>opAdd\<close>
  raises no runtime error: it falls through to its last statement, pushes nil and
  the machine goes on, where \<open>SUB\<close>, \<open>MUL\<close>, \<open>DIV\<close> and \<open>MOD\<close> raise on the same
  operands.
\<close>

theorem add_bad_types_pushes_nil:
  "opAdd no_floats ((vm_init empty_image)\<lparr>stack := [VBool True, VInt 1]\<rparr>)
   = Inr ((vm_init empty_image)\<lparr>stack := [VNil]\<rparr>)"
  by code_simp

lemma store_args_stack:
  "store_args n base vm = Inr vm' \<Longrightarrow> stack vm' = take (length (stack vm) - n) (stack vm)"
proof (induction n arbitrary: vm)
  case 0
  then show ?case by simp
next
  case (Suc n)
  show ?case
  proof (cases "stack vm = []")
    case True
    with Suc.prems Suc.IH [of "vm\<lparr>locals_v := (locals_v vm)[unat (base + word_of_nat n) := VNil]\<rparr>"]
    show ?thesis by (simp add: Let_def split: if_splits)
  next
    case False
    with Suc.prems
      Suc.IH [of "vm\<lparr>locals_v := (locals_v vm)[unat (base + word_of_nat n) := last (stack vm)],
                    stack := butlast (stack vm)\<rparr>"]
    show ?thesis by (simp add: Let_def butlast_conv_take split: if_splits)
  qed
qed

lemma drop_args_stack:
  "stack (drop_args n vm) = take (length (stack vm) - n) (stack vm)"
  by (induction n arbitrary: vm) (auto simp: butlast_conv_take)

lemma drop_args_rest:
  "locals_v (drop_args n vm) = locals_v vm" "callStack (drop_args n vm) = callStack vm"
  by (induction n arbitrary: vm) auto

lemma callFunction_stack:
  assumes "callFunction funcIndex vm = Inr vm'"
  shows "\<exists>f. find_function (functions_t (program vm)) funcIndex = Some f
           \<and> stack vm' = take (length (stack vm) - 2 * unat (arity f)) (stack vm)"
proof -
  from assms obtain f where f: "find_function (functions_t (program vm)) funcIndex = Some f"
    by (auto simp: callFunction_def runtimeError_def split: option.splits)
  from assms f obtain vm2 where
    s: "store_args (unat (arity f)) (word_of_nat (length (locals_v vm)))
          (vm\<lparr>callStack := callStack vm @ [\<lparr>returnAddr = pc vm + 1,
                         localStart = word_of_nat (length (locals_v vm)),
                         argCount = ucast (arity f), func = f\<rparr>],
              locals_v := resize (unat (word_of_nat (length (locals_v vm)) + (ucast (locals f) :: u32))) VNil
                                       (locals_v vm)\<rparr>) = Inr vm2"
    and r: "vm' = (drop_args (unat (arity f)) vm2)\<lparr>pc := address f\<rparr>"
    by (auto simp: callFunction_def runtimeError_def Let_def split: if_splits sum.splits)
  from store_args_stack [OF s] have "stack vm2 = take (length (stack vm) - unat (arity f)) (stack vm)"
    by simp
  with r have "stack vm' = take (length (stack vm) - 2 * unat (arity f)) (stack vm)"
    by (simp add: drop_args_stack min_def mult_2)
  with f show ?thesis by blast
qed


lemma opLoad_absolute:
  "opLoad k vm = Inr vm' \<Longrightarrow> vm' = vm\<lparr>stack := stack vm @ [locals_v vm ! unat k]\<rparr>"
  by (auto simp: opLoad_def push_def runtimeError_def split: if_splits)

lemma call_state_entered:
  "callFunction 10 call_state =
     Inr (call_state\<lparr>pc := 10, stack := [], locals_v := [VInt 7, VInt 42],
            callStack := callStack call_state @
              [\<lparr>returnAddr = 4, localStart = 1, argCount = 1,
                func = \<lparr>name = ''f'', address = 10, arity = 1, locals = 1\<rparr>\<rparr>]\<rparr>)"
  by code_simp

text \<open>
  C2 at a failing input.  \<open>Main\<close> holds 7 in its local slot 0 and calls the
  one-parameter function \<open>f\<close> with the argument 42.  \<open>CALL\<close> opens a frame with
  \<open>local_start = 1\<close> and stores the argument at \<open>locals[local_start + 0]\<close>, but
  \<open>LOAD 0\<close> in the body of \<open>f\<close> reads \<open>locals[0]\<close> and pushes the caller's 7.
\<close>

theorem load_ignores_local_start:
  "callFunction 10 call_state =
     Inr (call_state\<lparr>pc := 10, stack := [], locals_v := [VInt 7, VInt 42],
            callStack := callStack call_state @
              [\<lparr>returnAddr = 4, localStart = 1, argCount = 1,
                func = \<lparr>name = ''f'', address = 10, arity = 1, locals = 1\<rparr>\<rparr>]\<rparr>)
   \<and> [VInt 7, VInt 42] ! (unat (1 :: u32) + 0) = VInt 42
   \<and> opLoad 0 (call_state\<lparr>pc := 10, stack := [], locals_v := [VInt 7, VInt 42],
            callStack := callStack call_state @
              [\<lparr>returnAddr = 4, localStart = 1, argCount = 1,
                func = \<lparr>name = ''f'', address = 10, arity = 1, locals = 1\<rparr>\<rparr>]\<rparr>)
     = Inr (call_state\<lparr>pc := 10, stack := [VInt 7], locals_v := [VInt 7, VInt 42],
            callStack := callStack call_state @
              [\<lparr>returnAddr = 4, localStart = 1, argCount = 1,
                func = \<lparr>name = ''f'', address = 10, arity = 1, locals = 1\<rparr>\<rparr>]\<rparr>)"
proof -
  have "opLoad 0 (call_state\<lparr>pc := 10, stack := [], locals_v := [VInt 7, VInt 42],
            callStack := callStack call_state @
              [\<lparr>returnAddr = 4, localStart = 1, argCount = 1,
                func = \<lparr>name = ''f'', address = 10, arity = 1, locals = 1\<rparr>\<rparr>]\<rparr>)
     = Inr (call_state\<lparr>pc := 10, stack := [VInt 7], locals_v := [VInt 7, VInt 42],
            callStack := callStack call_state @
              [\<lparr>returnAddr = 4, localStart = 1, argCount = 1,
                func = \<lparr>name = ''f'', address = 10, arity = 1, locals = 1\<rparr>\<rparr>]\<rparr>)"
    by (simp add: opLoad_def push_def)
  then show ?thesis using call_state_entered by simp
qed

text \<open>
  C3 at a failing input.  The operand stack holds 10 and the argument 42 when
  \<open>CALL\<close> of the one-parameter function \<open>f\<close> executes.  The first loop of
  \<open>callFunction\<close> moves the argument into the callee's slot, the second loop pops
  once more per parameter: the caller's 10 is gone as well.  After the callee has
  pushed 99 and returned, the stack holds the return value alone.
\<close>

theorem call_pops_arguments_twice:
  "stack call_state = [VInt 10, VInt 42]
   \<and> (\<exists>vm1 vm2. callFunction 10 call_state = Inr vm1 \<and> stack vm1 = []
        \<and> returnFromFunction (push (VInt 99) vm1) = Inr vm2 \<and> stack vm2 = [VInt 99]
        \<and> pc vm2 = 4)"
proof -
  have "returnFromFunction (push (VInt 99)
          (call_state\<lparr>pc := 10, stack := [], locals_v := [VInt 7, VInt 42],
            callStack := callStack call_state @
              [\<lparr>returnAddr = 4, localStart = 1, argCount = 1,
                func = \<lparr>name = ''f'', address = 10, arity = 1, locals = 1\<rparr>\<rparr>]\<rparr>))
        = Inr (call_state\<lparr>pc := 4, stack := [VInt 99], locals_v := [VInt 7]\<rparr>)"
    by code_simp
  then show ?thesis
    using call_state_entered by (simp add: call_state_def)
qed

section \<open>Properties of the image codec\<close>

lemma and_ff_take_bit: "(x :: 'a::len word) AND 0xFF = take_bit 8 x"
  by (simp add: take_bit_eq_mask mask_eq_exp_minus_1)

lemma ucast_and_ff32: "(ucast ((x :: u32) AND 0xFF) :: u8) = ucast x"
  unfolding and_ff_take_bit by (rule bit_word_eqI) (simp add: bit_simps)

lemma ucast_and_ff16: "(ucast ((x :: u16) AND 0xFF) :: u8) = ucast x"
  unfolding and_ff_take_bit by (rule bit_word_eqI) (simp add: bit_simps)

lemma ucast_and_ff64: "(ucast ((x :: i64) AND 0xFF) :: u8) = ucast x"
  unfolding and_ff_take_bit by (rule bit_word_eqI) (simp add: bit_simps)

lemma bytes16:
  "ucast (ucast v :: u8) OR push_bit 8 (ucast (ucast (drop_bit 8 v) :: u8)) = (v :: u16)"
proof (rule bit_word_eqI)
  fix n :: nat
  assume "n < LENGTH(16)"
  then have "n < 8 \<or> (8 \<le> n \<and> n < 16)"
    by simp linarith
  then show "bit (ucast (ucast v :: u8) OR push_bit 8 (ucast (ucast (drop_bit 8 v) :: u8)) :: u16) n
             = bit v n"
    by (elim disjE) (auto simp: bit_simps)
qed

lemma bytes32:
  "ucast (ucast v :: u8) OR push_bit 8 (ucast (ucast (drop_bit 8 v) :: u8))
        OR push_bit 16 (ucast (ucast (drop_bit 16 v) :: u8))
        OR push_bit 24 (ucast (ucast (drop_bit 24 v) :: u8)) = (v :: u32)"
proof (rule bit_word_eqI)
  fix n :: nat
  assume "n < LENGTH(32)"
  then have "n < 8 \<or> (8 \<le> n \<and> n < 16) \<or> (16 \<le> n \<and> n < 24) \<or> (24 \<le> n \<and> n < 32)"
    by simp linarith
  then show "bit (ucast (ucast v :: u8) OR push_bit 8 (ucast (ucast (drop_bit 8 v) :: u8))
        OR push_bit 16 (ucast (ucast (drop_bit 16 v) :: u8))
        OR push_bit 24 (ucast (ucast (drop_bit 24 v) :: u8)) :: u32) n = bit v n"
    by (elim disjE) (auto simp: bit_simps)
qed

lemma bytes64:
  "ucast (ucast v :: u8) OR push_bit 8 (ucast (ucast (drop_bit 8 v) :: u8))
        OR push_bit 16 (ucast (ucast (drop_bit 16 v) :: u8))
        OR push_bit 24 (ucast (ucast (drop_bit 24 v) :: u8))
        OR push_bit 32 (ucast (ucast (drop_bit 32 v) :: u8))
        OR push_bit 40 (ucast (ucast (drop_bit 40 v) :: u8))
        OR push_bit 48 (ucast (ucast (drop_bit 48 v) :: u8))
        OR push_bit 56 (ucast (ucast (drop_bit 56 v) :: u8)) = (v :: i64)"
proof (rule bit_word_eqI)
  fix n :: nat
  assume n: "n < LENGTH(64)"
  have z: "bit (ucast (ucast v :: u8) :: i64) n = (n < 8 \<and> bit v n)"
    by (auto simp: bit_simps)
  have b8: "bit (push_bit 8 (ucast (ucast (drop_bit 8 v) :: u8)) :: i64) n
             = (8 \<le> n \<and> n < 16 \<and> bit v n)"
    using n by (auto simp: bit_simps)
  have b16: "bit (push_bit 16 (ucast (ucast (drop_bit 16 v) :: u8)) :: i64) n
             = (16 \<le> n \<and> n < 24 \<and> bit v n)"
    using n by (auto simp: bit_simps)
  have b24: "bit (push_bit 24 (ucast (ucast (drop_bit 24 v) :: u8)) :: i64) n
             = (24 \<le> n \<and> n < 32 \<and> bit v n)"
    using n by (auto simp: bit_simps)
  have b32: "bit (push_bit 32 (ucast (ucast (drop_bit 32 v) :: u8)) :: i64) n
             = (32 \<le> n \<and> n < 40 \<and> bit v n)"
    using n by (auto simp: bit_simps)
  have b40: "bit (push_bit 40 (ucast (ucast (drop_bit 40 v) :: u8)) :: i64) n
             = (40 \<le> n \<and> n < 48 \<and> bit v n)"
    using n by (auto simp: bit_simps)
  have b48: "bit (push_bit 48 (ucast (ucast (drop_bit 48 v) :: u8)) :: i64) n
             = (48 \<le> n \<and> n < 56 \<and> bit v n)"
    using n by (auto simp: bit_simps)
  have b56: "bit (push_bit 56 (ucast (ucast (drop_bit 56 v) :: u8)) :: i64) n
             = (56 \<le> n \<and> n < 64 \<and> bit v n)"
    using n by (auto simp: bit_simps)
  from n have r: "n < 8 \<or> (8 \<le> n \<and> n < 16) \<or> (16 \<le> n \<and> n < 24) \<or> (24 \<le> n \<and> n < 32)
      \<or> (32 \<le> n \<and> n < 40) \<or> (40 \<le> n \<and> n < 48) \<or> (48 \<le> n \<and> n < 56) \<or> (56 \<le> n \<and> n < 64)"
    by simp linarith
  show "bit (ucast (ucast v :: u8) OR push_bit 8 (ucast (ucast (drop_bit 8 v) :: u8))
        OR push_bit 16 (ucast (ucast (drop_bit 16 v) :: u8))
        OR push_bit 24 (ucast (ucast (drop_bit 24 v) :: u8))
        OR push_bit 32 (ucast (ucast (drop_bit 32 v) :: u8))
        OR push_bit 40 (ucast (ucast (drop_bit 40 v) :: u8))
        OR push_bit 48 (ucast (ucast (drop_bit 48 v) :: u8))
        OR push_bit 56 (ucast (ucast (drop_bit 56 v) :: u8)) :: i64) n = bit v n"
    unfolding bit_or_iff z b8 b16 b24 b32 b40 b48 b56
    using r by auto
qed

lemma readUint32_write: "readUint32 (writeUint32 v @ rest) = Inr (v, rest)"
  by (simp add: readUint32_def writeUint32_def ucast_and_ff32 bytes32)

lemma readUint16_write: "readUint16 (writeUint16 v @ rest) = Inr (v, rest)"
  by (simp add: readUint16_def writeUint16_def ucast_and_ff16 bytes16)

lemma upt8: "[0..<8] = [0, 1, 2, 3, 4, 5, 6, 7]"
  by (simp add: upt_rec)

lemma signed_drop_byte:
  "k \<le> 56 \<Longrightarrow> (ucast (signed_drop_bit k (v :: i64)) :: u8) = ucast (drop_bit k v)"
  by (rule bit_word_eqI) (auto simp: bit_simps)

lemma writeInt64_bytes:
  "writeInt64 v = [ucast v, ucast (drop_bit 8 v), ucast (drop_bit 16 v), ucast (drop_bit 24 v),
     ucast (drop_bit 32 v), ucast (drop_bit 40 v), ucast (drop_bit 48 v), ucast (drop_bit 56 v)]"
  by (simp add: writeInt64_def upt8 ucast_and_ff64 signed_drop_byte)

lemma writeDouble_bytes:
  "writeDouble v = [ucast v, ucast (drop_bit 8 v), ucast (drop_bit 16 v), ucast (drop_bit 24 v),
     ucast (drop_bit 32 v), ucast (drop_bit 40 v), ucast (drop_bit 48 v), ucast (drop_bit 56 v)]"
  by (simp add: writeDouble_def upt8)

lemma readInt64_write: "readInt64 (writeInt64 v @ rest) = Inr (v, rest)"
  using bytes64 [of v] by (simp add: readInt64_def writeInt64_bytes upt8 ac_simps)

lemma readDouble_write: "readDouble (writeDouble v @ rest) = Inr (v, rest)"
  using bytes64 [of v] by (simp add: readDouble_def writeDouble_bytes upt8 ac_simps)

lemma char_of_byte_of_char: "char_of_byte (byte_of_char c) = c"
  by (simp add: char_of_byte_def byte_of_char_def unat_of_nat)

lemma length_writeUint32: "length (writeUint32 v) = 4"
  by (simp add: writeUint32_def)

lemma length_writeUint16: "length (writeUint16 v) = 2"
  by (simp add: writeUint16_def)

lemma length_writeInt64: "length (writeInt64 v) = 8"
  by (simp add: writeInt64_def)

lemma length_writeDouble: "length (writeDouble v) = 8"
  by (simp add: writeDouble_def)

lemma checked_ok: "n \<le> length bs \<Longrightarrow> checked n rd bs = rd bs"
  by (simp add: checked_def)

lemma unat_length: "fits32 xs \<Longrightarrow> unat (word_of_nat (length xs) :: u32) = length xs"
  by (simp add: fits32_def unat_of_nat)

lemma read_many_write:
  assumes "\<And>x rest. x \<in> set xs \<Longrightarrow> rd (wr x @ rest) = Inr (x, rest)"
  shows "read_many (length xs) rd (concat (map wr xs) @ rest) = Inr (xs, rest)"
  using assms by (induction xs) simp_all

lemma read_many_length:
  "read_many n rd bs = Inr (xs, bs') \<Longrightarrow> length xs = n"
  by (induction n arbitrary: bs xs) (auto split: sum.splits)

lemma read_section_write:
  assumes "fits32 xs"
    and "\<And>x rest. x \<in> set xs \<Longrightarrow> rd (wr x @ rest) = Inr (x, rest)"
  shows "read_section rd (write_section wr xs @ rest) = Inr (xs, rest)"
  using assms
  by (simp add: read_section_def write_section_def checked_ok length_writeUint32
      readUint32_write unat_length read_many_write)

lemma read_string_write:
  "fits32 str \<Longrightarrow> read_string (write_string str @ rest) = Inr (str, rest)"
  by (simp add: read_string_def write_string_def checked_ok length_writeUint32
      readUint32_write unat_length comp_def char_of_byte_of_char)

lemma read_byte_cons:
  "checked 1 read_byte (b # rest) = Inr (b, rest)"
  "checked (Suc 0) read_byte (b # rest) = Inr (b, rest)"
  by (simp_all add: checked_def read_byte_def)

lemma read_instr_write: "read_instr (write_instr i @ rest) = Inr (i, rest)"
  by (simp add: read_instr_def write_instr_def read_byte_cons readUint32_write)

lemma length_write_instrs: "length (concat (map write_instr xs)) = 5 * length xs"
  by (induction xs) (simp_all add: write_instr_def length_writeUint32)

lemma unat_times5: "unat ((x :: u32) * 5) \<le> 5 * unat x"
  by (simp add: unat_word_ariths)

lemma read_code_write:
  assumes "fits32 xs"
  shows "read_code (write_section write_instr xs @ rest) = Inr (xs, rest)"
proof -
  have "unat ((word_of_nat (length xs) :: u32) * 5) \<le> 5 * length xs"
    using unat_times5 [of "word_of_nat (length xs)"] assms by (simp add: unat_length)
  then show ?thesis
    using assms
    by (simp add: read_code_def write_section_def checked_ok length_writeUint32
        readUint32_write unat_length read_many_write read_instr_write length_write_instrs)
qed

lemma read_const_write: "read_const (write_const c @ rest) = Inr (c, rest)"
proof (cases c)
  case (VOther t)
  have "7 < Rep_other_tag t" using Rep_other_tag [of t] by simp
  then have "Rep_other_tag t \<noteq> 0" "Rep_other_tag t \<noteq> 1" "Rep_other_tag t \<noteq> 2"
    "Rep_other_tag t \<noteq> 3" "Rep_other_tag t \<noteq> 4" "Rep_other_tag t \<noteq> 5"
    "Rep_other_tag t \<noteq> 6" "Rep_other_tag t \<noteq> 7"
    by auto
  with VOther show ?thesis
    by (simp add: read_const_def read_byte_cons type_defs skip8_def Rep_other_tag_inverse)
qed (simp_all add: read_const_def read_byte_cons type_defs map_reader_def skip8_def
      checked_ok length_writeInt64 length_writeDouble length_writeUint32
      readInt64_write readDouble_write readUint32_write)

lemma read_int_array_write:
  "fits32 arr \<Longrightarrow> read_int_array (write_int_array arr @ rest) = Inr (arr, rest)"
  unfolding read_int_array_def write_int_array_def write_section_def [symmetric]
  by (rule read_section_write) (simp_all add: checked_ok length_writeInt64 readInt64_write)

lemma read_float_array_write:
  "fits32 arr \<Longrightarrow> read_float_array (write_float_array arr @ rest) = Inr (arr, rest)"
  unfolding read_float_array_def write_float_array_def write_section_def [symmetric]
  by (rule read_section_write) (simp_all add: checked_ok length_writeDouble readDouble_write)

lemma read_string_array_write:
  "fits32 arr \<Longrightarrow> list_all fits32 arr \<Longrightarrow>
   read_string_array (write_string_array arr @ rest) = Inr (arr, rest)"
  unfolding read_string_array_def write_string_array_def write_section_def [symmetric]
  by (rule read_section_write) (simp_all add: read_string_write list_all_iff)

lemma read_function_write:
  "fits32 (name f) \<Longrightarrow> read_function (write_function f @ rest) = Inr (f, rest)"
  by (simp add: read_function_def write_function_def read_string_write and_then_def
      checked_ok length_writeUint32 readUint32_write read_byte_cons)


text \<open>
  C5, as amended.  For every in-memory image that carries the \<open>TAIL\<close> magic and whose
  element counts and string lengths all fit the format's 32-bit count fields,
  \<open>deserialize (serialize I)\<close> succeeds and returns \<open>I\<close> itself: header, code,
  constants, strings, the three array pools, functions and native imports.
\<close>

theorem deserialize_serialize:
  assumes "magic f = TAIL_MAGIC" and "image_fits f"
  shows "deserialize (serialize f) = Inr f"
proof -
  from assms(2) have fits:
    "fits32 (code f)" "fits32 (constants f)" "fits32 (strings f)" "fits32 (intArrays f)"
    "fits32 (floatArrays f)" "fits32 (stringArrays f)" "fits32 (functions_t f)"
    "fits32 (nativeImports f)"
    and elems:
    "\<And>x. x \<in> set (strings f) \<Longrightarrow> fits32 x"
    "\<And>x. x \<in> set (intArrays f) \<Longrightarrow> fits32 x"
    "\<And>x. x \<in> set (floatArrays f) \<Longrightarrow> fits32 x"
    "\<And>x. x \<in> set (stringArrays f) \<Longrightarrow> fits32 x \<and> list_all fits32 x"
    "\<And>x. x \<in> set (functions_t f) \<Longrightarrow> fits32 (name x)"
    "\<And>x. x \<in> set (nativeImports f) \<Longrightarrow> fits32 x"
    by (auto simp: image_fits_def list_all_iff)
  have s_const: "\<And>rest. read_section read_const (write_section write_const (constants f) @ rest)
                  = Inr (constants f, rest)"
    by (rule read_section_write [OF fits(2)]) (rule read_const_write)
  have s_str: "\<And>rest. read_section read_string (write_section write_string (strings f) @ rest)
                  = Inr (strings f, rest)"
    by (rule read_section_write [OF fits(3)]) (simp add: read_string_write elems)
  have s_int: "\<And>rest. read_section read_int_array
                    (write_section write_int_array (intArrays f) @ rest)
                  = Inr (intArrays f, rest)"
    by (rule read_section_write [OF fits(4)]) (simp add: read_int_array_write elems)
  have s_float: "\<And>rest. read_section read_float_array
                    (write_section write_float_array (floatArrays f) @ rest)
                  = Inr (floatArrays f, rest)"
    by (rule read_section_write [OF fits(5)]) (simp add: read_float_array_write elems)
  have s_sarr: "\<And>rest. read_section read_string_array
                    (write_section write_string_array (stringArrays f) @ rest)
                  = Inr (stringArrays f, rest)"
    by (rule read_section_write [OF fits(6)]) (simp add: read_string_array_write elems)
  have s_fun: "\<And>rest. read_section read_function
                    (write_section write_function (functions_t f) @ rest)
                  = Inr (functions_t f, rest)"
    by (rule read_section_write [OF fits(7)]) (simp add: read_function_write elems)
  have s_nat: "read_section read_string (write_section write_string (nativeImports f))
                  = Inr (nativeImports f, [])"
    using read_section_write [OF fits(8), of read_string write_string "[]"]
    by (simp add: read_string_write elems)
  have m: "magic f = 0x5441494C"
    using assms(1) by (simp add: TAIL_MAGIC_def)
  have len: "\<not> length (serialize f) < 8"
    by (simp add: serialize_def writeUint32_def writeUint16_def)
  show ?thesis
    unfolding deserialize_def
    apply (simp only: len if_False)
    unfolding serialize_def
    by (simp add: checked_ok length_writeUint32 length_writeUint16 readUint32_write
        readUint16_write and_then_def m [symmetric] read_code_write fits
        s_const s_str s_int s_float s_sarr s_fun s_nat)
qed

lemma sample_image_fits: "magic sample_image = TAIL_MAGIC \<and> image_fits sample_image"
  by (simp add: sample_image_def empty_image_def image_fits_def fits32_def)

theorem deserialize_serialize_witness:
  "magic sample_image = TAIL_MAGIC \<and> image_fits sample_image
   \<and> deserialize (serialize sample_image) = Inr sample_image"
  using sample_image_fits deserialize_serialize [of sample_image] by simp

lemma read_code_length:
  "read_code bs = Inr (c, bs') \<Longrightarrow> length c < 2 ^ 32"
proof -
  assume r: "read_code bs = Inr (c, bs')"
  then obtain n :: u32 and bs1 where "read_many (unat n) read_instr bs1 = Inr (c, bs')"
    by (auto simp: read_code_def split: sum.splits if_splits)
  then have "length c = unat n" by (rule read_many_length)
  moreover have "unat n < 2 ^ 32" using unsigned_less [of n, where ?'a = nat] by simp
  ultimately show ?thesis by simp
qed

lemma deserialize_code_length:
  assumes "deserialize data = Inr g"
  shows "length (code g) < 2 ^ 32"
proof -
  from assms obtain b2 c b3 where "read_code b2 = Inr (c, b3)" and "code g = c"
    by (auto simp: deserialize_def and_then_def split: if_splits sum.splits)
  then show ?thesis using read_code_length by blast
qed

text \<open>
  C5 as stated fails beyond the 32-bit counts: an image with \<open>2^32\<close> instructions
  carries the magic, but its count is written as 0 and no decoded image has that
  many instructions.
\<close>

theorem big_image_not_restored:
  "magic big_image = TAIL_MAGIC \<and> deserialize (serialize big_image) \<noteq> Inr big_image"
proof -
  have "length (code big_image) = 2 ^ 32"
    by (simp add: big_image_def)
  then have "deserialize (serialize big_image) \<noteq> Inr big_image"
    using deserialize_code_length [of "serialize big_image" big_image] by auto
  then show ?thesis by (simp add: big_image_def empty_image_def)
qed

text \<open>
  C7, as amended.  \<open>serialize\<close> writes every constant as its 1-byte type tag followed
  by a payload whose size depends on the type: 8 bytes for int (\<open>int64\<close>), float
  (\<open>float64\<close>), nil and unknown tags (8 zero bytes), 1 byte for bool, and the 4-byte
  index for string and array kinds, so a record takes 9, 2 or 5 bytes.  No padding is
  written, and \<open>deserialize\<close> reads the records back with the same sizes.
\<close>

theorem constant_record_layout:
  "write_const (VInt x) = 1 # writeInt64 x \<and> length (write_const (VInt x)) = 9
   \<and> write_const (VFloat d) = 2 # writeDouble d \<and> length (write_const (VFloat d)) = 9
   \<and> write_const VNil = 0 # replicate 8 0 \<and> length (write_const VNil) = 9
   \<and> length (write_const (VOther t)) = 9
   \<and> write_const (VBool False) = [3, 0] \<and> write_const (VBool True) = [3, 1]
   \<and> length (write_const (VBool b)) = 2
   \<and> write_const (VString idx) = 4 # writeUint32 idx
   \<and> write_const (VArrayInt idx) = 5 # writeUint32 idx
   \<and> write_const (VArrayFloat idx) = 6 # writeUint32 idx
   \<and> write_const (VArrayString idx) = 7 # writeUint32 idx
   \<and> length (write_const (VString idx)) = 5 \<and> length (write_const (VArrayInt idx)) = 5
   \<and> length (write_const (VArrayFloat idx)) = 5
   \<and> length (write_const (VArrayString idx)) = 5
   \<and> serialize f =
       writeUint32 (magic f) @ writeUint16 (version f) @ writeUint16 (flags f)
       @ write_section write_instr (code f)
       @ (writeUint32 (word_of_nat (length (constants f)))
          @ concat (map write_const (constants f)))
       @ write_section write_string (strings f)
       @ write_section write_int_array (intArrays f)
       @ write_section write_float_array (floatArrays f)
       @ write_section write_string_array (stringArrays f)
       @ write_section write_function (functions_t f)
       @ write_section write_string (nativeImports f)
   \<and> read_const (write_const c @ rest) = Inr (c, rest)"
  by (simp add: type_defs length_writeInt64 length_writeDouble length_writeUint32
      serialize_def write_section_def read_const_write)

text \<open>
  C7 as stated fails for bool and string constants: an image whose only constant is
  \<open>true\<close> serialises to 42 bytes, the constant record being the two bytes \<open>3, 1\<close>;
  a string constant with index 7 takes five bytes.
\<close>

theorem bool_constant_two_bytes:
  "serialize (empty_image\<lparr>constants := [VBool True]\<rparr>)
     = [0x4C, 0x49, 0x41, 0x54, 1, 0, 0, 0,
        0, 0, 0, 0,
        1, 0, 0, 0, 3, 1,
        0, 0, 0, 0, 0, 0, 0, 0, 0, 0, 0, 0,
        0, 0, 0, 0, 0, 0, 0, 0, 0, 0, 0, 0]
   \<and> length (serialize (empty_image\<lparr>constants := [VBool True]\<rparr>)) = 42
   \<and> write_const (VString 7) = [4, 7, 0, 0, 0]"
  by code_simp

section \<open>Properties of the lexer\<close>

lemma scanToken_newline:
  assumes "current lx < length (source lx)" and "source lx ! current lx = CHR 0x0A"
  shows "line (scanToken lx) = line lx + 2"
  using assms by (simp add: scanToken_def advance_def isAtEnd_def Let_def)

text \<open>
  C9 at a failing input.  The source is a newline followed by \<open>x\<close>, so the
  identifier begins on physical line 2.  \<open>advance\<close> counts the newline and the
  \<open>'\n'\<close> case of \<open>scanToken\<close> counts it a second time: the token \<open>x\<close> (and the
  closing \<open>eof\<close>) carry line 3.
\<close>

theorem newline_counted_twice:
  "tokenize [CHR 0x0A, CHR ''x''] =
     Some ([\<lparr>tok_type = IDENTIFIER, tok_text = ''x'', tok_line = 3, tok_column = 2\<rparr>,
            \<lparr>tok_type = EOF_TOKEN, tok_text = [], tok_line = 3, tok_column = 2\<rparr>], [])"
  by code_simp

section \<open>Properties of the compiler\<close>

text \<open>
  The sibling loop: for \<open>fn Main() { while (true) { } }\<close> the exit jump at address 1
  is patched to the address after the loop.
\<close>

lemma while_exit_is_patched:
  "compile [FunctionStmt ''Main'' [] [WhileStmt (LiteralExpr (ABool True)) (BlockStmt [])]] =
     Inr (empty_image\<lparr>
       code := [Instr OP_PUSH 0, Instr OP_JMP_IFNOT 3, Instr OP_JMP 0, Instr OP_PUSH 1,
                Instr OP_RET 0, Instr OP_HALT 0],
       constants := [VBool True, VNil],
       functions_t := [\<lparr>name = ''Main'', address = 0, arity = 0, locals = 0\<rparr>]\<rparr>)"
  by code_simp

text \<open>
  C1 at a failing input.  \<open>fn Main() { for (; true; ) { } }\<close> compiles without error,
  and the \<open>JMP_IFNOT\<close> emitted after the condition (address 1) still has the operand
  \<open>0xFFFFFFFF\<close> in the finished code stream: \<open>compileFor\<close> records the exit jump in
  its local \<open>LoopContext\<close>, not in the copy on the loop stack that is patched.
\<close>

theorem for_exit_jump_unpatched:
  "compile [FunctionStmt ''Main'' []
             [ForStmt NullStmt (LiteralExpr (ABool True)) NullExpr (BlockStmt [])]] =
     Inr (empty_image\<lparr>
       code := [Instr OP_PUSH 0, Instr OP_JMP_IFNOT 0xFFFFFFFF, Instr OP_JMP 0,
                Instr OP_PUSH 1, Instr OP_RET 0, Instr OP_HALT 0],
       constants := [VBool True, VNil],
       functions_t := [\<lparr>name = ''Main'', address = 0, arity = 0, locals = 0\<rparr>]\<rparr>)"
  by code_simp

text \<open>
  C6 at failing inputs.  In \<open>fn Main() { int a = 1; { int b = 2; } }\<close> the
  declaration of \<open>b\<close> in the nested block is stored to slot 0, the slot of \<open>a\<close>, while
  the counting pass reserves two slots (\<open>locals = 2\<close>).  In
  \<open>fn f(int p) { { int b = 2; } }\<close> the block-local \<open>b\<close> is stored to slot 0, the slot
  of the parameter \<open>p\<close>.  \<open>compileBlock\<close> pushes a fresh \<open>FunctionContext\<close>, whose
  \<open>nextLocal\<close> starts at 0 again.
\<close>

theorem block_restarts_slots:
  "compile [FunctionStmt ''Main'' []
             [VarDeclStmt True ''int'' ''a'' (LiteralExpr (AInt 1)),
              BlockStmt [VarDeclStmt True ''int'' ''b'' (LiteralExpr (AInt 2))]]] =
     Inr (empty_image\<lparr>
       code := [Instr OP_PUSH 0, Instr OP_STORE 0, Instr OP_PUSH 1, Instr OP_STORE 0,
                Instr OP_PUSH 2, Instr OP_RET 0, Instr OP_HALT 0],
       constants := [VInt 1, VInt 2, VNil],
       functions_t := [\<lparr>name = ''Main'', address = 0, arity = 0, locals = 2\<rparr>]\<rparr>)
   \<and> compile [FunctionStmt ''f'' [(''int'', ''p'')]
               [BlockStmt [VarDeclStmt True ''int'' ''b'' (LiteralExpr (AInt 2))]],
              FunctionStmt ''Main'' [] []] =
     Inr (empty_image\<lparr>
       code := [Instr OP_PUSH 0, Instr OP_STORE 0, Instr OP_PUSH 1, Instr OP_RET 0,
                Instr OP_HALT 0],
       constants := [VInt 2, VNil],
       functions_t := [\<lparr>name = ''f'', address = 0, arity = 1, locals = 2\<rparr>,
                       \<lparr>name = ''Main'', address = 4, arity = 0, locals = 0\<rparr>]\<rparr>)"
  by code_simp

section \<open>Properties of the parser and of assignments\<close>

lemmas parser_defs =
  parse_def new_parser_def then_parse_def isAtEnd_p_def peek_tok_def advance_p_def previous_def
  check_def check_any_def parse_error_def consume_def isTypeToken_def
  parsePrimary_def make_call_def finishCall_def parseCall_def parseFactor_def parseTerm_def
  parseComparison_def parseEquality_def parseLogicalAnd_def parseLogicalOr_def
  assignment_node_def skip_modifier_def parseVarDeclaration_def parseArrayDeclaration_def
  parseBlock_def parseWhileStatement_def for_initializer_def parseForStatement_def
  parseReturnStatement_def parseBreakStatement_def parseContinueStatement_def
  parseInclude_def block_statements_def parseFunction_def catch_runtime_error_def

lemma stoll_1: "stoll ''1'' = Some 1"
  by code_simp

lemma stoll_2: "stoll ''2'' = Some 2"
  by code_simp

text \<open>
  \<open>parseAssignment\<close> turns a variable followed by \<open>=\<close> and a value into a binary
  expression whose operator is the text \<open>=\<close>; no function of the parser builds an
  \<open>AssignStmt\<close>.
\<close>

lemma assignment_node_variable:
  "assignment_node (VariableExpr nm) v p = Inr (BinaryExpr (VariableExpr nm) ''='' v, p)"
  by (simp add: assignment_node_def)

text \<open>
  \<open>compileBinary\<close> knows the operators \<open>+ - * / %\<close> only: a binary expression with
  the operator \<open>=\<close> is a compile error whatever its operands are, declared or not,
  and so is the expression statement that holds it.
\<close>

lemma binary_opcode_assign:
  "binary_opcode ''='' c = Inl (CompileError ''Unknown binary operator: ='')"
  by (simp add: binary_opcode_def)

lemma assignment_expression_rejected:
  "\<exists>e. compileExpr (BinaryExpr l ''='' r) c = Inl e"
  by (simp add: binary_opcode_assign split: sum.splits)

lemma assignment_statement_rejected:
  "\<exists>e. compileStmt (ExprStmt (BinaryExpr l ''='' r)) c = Inl e"
  using assignment_expression_rejected [of l r c] by (auto simp: compileExprStmt_def)

text \<open>
  The sibling path: \<open>compileAssign\<close> compiles the node \<open>AssignStmt\<close> to the code of
  the value followed by \<open>STORE\<close> of the variable's slot.
\<close>

lemma assign_stmt_compiles:
  "compile [FunctionStmt ''Main'' []
             [VarDeclStmt True ''int'' ''x'' (LiteralExpr (AInt 1)),
              AssignStmt ''x'' (LiteralExpr (AInt 2))]] =
     Inr (empty_image\<lparr>
       code := [Instr OP_PUSH 0, Instr OP_STORE 0, Instr OP_PUSH 1, Instr OP_STORE 0,
                Instr OP_PUSH 2, Instr OP_RET 0, Instr OP_HALT 0],
       constants := [VInt 1, VInt 2, VNil],
       functions_t := [\<lparr>name = ''Main'', address = 0, arity = 0, locals = 1\<rparr>]\<rparr>)"
  by code_simp

text \<open>
  C4 at a failing input.  In \<open>fn Main() { int x = 1; x = 2; }\<close> the variable \<open>x\<close> is a
  declared local.  The lexer and the parser accept the program without an error,
  for every bound of at least 8 on the depth of the parser's recursion and every
  \<open>std::stod\<close>; the statement \<open>x = 2;\<close> becomes an expression statement around the
  binary expression \<open>x = 2\<close>.  The compiler rejects that tree with
  \<open>Unknown binary operator: =\<close>: no \<open>STORE\<close> is emitted for the assignment.
\<close>

theorem assignment_is_rejected:
  "tokenize ''fn Main() { int x = 1; x = 2; }'' = Some (assign_tokens, [])
   \<and> parse (8 + n) sd assign_tokens =
       Inr (assign_ast,
            \<lparr>p_tokens = assign_tokens, pos = 15, p_errors = [], includedFiles = []\<rparr>)
   \<and> compile assign_ast = Inl (CompileError ''Unknown binary operator: ='')"
proof -
  have l: "tokenize ''fn Main() { int x = 1; x = 2; }'' = Some (assign_tokens, [])"
    by code_simp
  have f: "8 + n = Suc (Suc (Suc (Suc (Suc (Suc (Suc (Suc n)))))))"
    by simp
  have p: "parse (Suc (Suc (Suc (Suc (Suc (Suc (Suc (Suc n)))))))) sd assign_tokens =
       Inr (assign_ast,
            \<lparr>p_tokens = assign_tokens, pos = 15, p_errors = [], includedFiles = []\<rparr>)"
    by (simp add: parser_defs assign_tokens_def assign_ast_def stoll_1 stoll_2 Let_def)
  have c: "compile assign_ast = Inl (CompileError ''Unknown binary operator: ='')"
    by code_simp
  show ?thesis
    unfolding f by (intro conjI l p c)
qed

end
